theory Spec2Isabelle
  imports Complex_Main "HOL-Library.List_Lexorder"
begin

section \<open>Python values\<close>

text \<open>
  A Python \<open>str\<close> is a sequence of Unicode code points, and \<open>len\<close> counts code points.
  A string is therefore a list of code points; \<open>u\<close> writes an ASCII literal.
\<close>

type_synonym ustring = "nat list"

definition u :: "string \<Rightarrow> ustring" where
  "u s = map of_char s"

datatype py_error = KeyError | AttributeError

text \<open>
  \<open>str.strip()\<close>, \<open>str.split()\<close> and the regular expression class \<open>\s\<close> use the same
  whitespace test of CPython, true of exactly these code points.
\<close>

definition py_isspace :: "nat \<Rightarrow> bool" where
  "py_isspace c \<longleftrightarrow>
     (9 \<le> c \<and> c \<le> 13) \<or> (28 \<le> c \<and> c \<le> 32) \<or> c = 133 \<or> c = 160 \<or> c = 5760 \<or>
     (8192 \<le> c \<and> c \<le> 8202) \<or> c = 8232 \<or> c = 8233 \<or> c = 8239 \<or> c = 8287 \<or> c = 12288"

definition py_strip :: "ustring \<Rightarrow> ustring" where
  "py_strip s = rev (dropWhile py_isspace (rev (dropWhile py_isspace s)))"

text \<open>\<open>s.split()\<close>: the maximal runs of non-whitespace; \<open>w\<close> is the word being read.\<close>

fun py_split_from :: "ustring \<Rightarrow> ustring \<Rightarrow> ustring list" where
  "py_split_from w [] = (if w = [] then [] else [w])"
| "py_split_from w (c # cs) =
     (if py_isspace c then (if w = [] then py_split_from [] cs else w # py_split_from [] cs)
      else py_split_from (w @ [c]) cs)"

definition py_split :: "ustring \<Rightarrow> ustring list" where
  "py_split s = py_split_from [] s"

fun py_join :: "ustring \<Rightarrow> ustring list \<Rightarrow> ustring" where
  "py_join sep [] = []"
| "py_join sep [w] = w"
| "py_join sep (w # ws) = w @ sep @ py_join sep ws"

definition endswith :: "ustring \<Rightarrow> ustring \<Rightarrow> bool" where
  "endswith s e \<longleftrightarrow> length e \<le> length s \<and> drop (length s - length e) s = e"

text \<open>\<open>needle in s\<close> on strings: \<open>needle\<close> occurs in \<open>s\<close> as a contiguous block.\<close>

fun contains :: "ustring \<Rightarrow> ustring \<Rightarrow> bool" where
  "contains [] needle = (needle = [])"
| "contains (c # cs) needle = (take (length needle) (c # cs) = needle \<or> contains cs needle)"

text \<open>
  What the code takes from the Python runtime and its Unicode database, none of it part of
  the repository: \<open>str.lower\<close>, the word characters of the regular expression class \<open>\w\<close>,
  \<open>str()\<close> of a decoded JSON value that is not a string, and \<open>float()\<close> of a string
  (\<open>None\<close> where it raises \<open>ValueError\<close>). The functions below take them as a parameter
  and the theorems hold for every choice of them.
\<close>

datatype json = JNull | JBool bool | JNum real | JStr ustring | JArr "json list"
  | JObj "(ustring \<times> json) list"

record runtime =
  str_lower :: "ustring \<Rightarrow> ustring"
  word_char :: "nat \<Rightarrow> bool"
  str_of :: "json \<Rightarrow> ustring"
  float_of :: "ustring \<Rightarrow> real option"

text \<open>
  The runtime on strings whose code points are all below 256 (Basic Latin and Latin-1),
  where \<open>str.lower\<close> works code point by code point. It evaluates the examples;
  \<open>str()\<close> and \<open>float()\<close> are given where the examples need them: no example formats a
  value that is not a string, and the one string parsed as a float is "3".
\<close>

definition latin1_lower_cp :: "nat \<Rightarrow> nat" where
  "latin1_lower_cp c =
     (if (65 \<le> c \<and> c \<le> 90) \<or> (192 \<le> c \<and> c \<le> 214) \<or> (216 \<le> c \<and> c \<le> 222) then c + 32 else c)"

definition latin1_word_char :: "nat \<Rightarrow> bool" where
  "latin1_word_char c \<longleftrightarrow>
     (48 \<le> c \<and> c \<le> 57) \<or> (65 \<le> c \<and> c \<le> 90) \<or> c = 95 \<or> (97 \<le> c \<and> c \<le> 122) \<or>
     c = 170 \<or> c = 178 \<or> c = 179 \<or> c = 181 \<or> c = 185 \<or> c = 186 \<or>
     (188 \<le> c \<and> c \<le> 190) \<or> (192 \<le> c \<and> c \<le> 214) \<or> (216 \<le> c \<and> c \<le> 246) \<or>
     (248 \<le> c \<and> c \<le> 255)"

definition latin1 :: runtime where
  "latin1 = \<lparr>str_lower = map latin1_lower_cp, word_char = latin1_word_char,
             str_of = (\<lambda>v. []), float_of = (\<lambda>s. if s = u ''3'' then Some 3 else None)\<rparr>"


section \<open>Text heuristics (app/services/assemblyai.py)\<close>

definition religious_endings :: "ustring list" where
  "religious_endings =
     [u ''am'' @ [233] @ u ''n'', u '' am'' @ [233] @ u ''n'', u ''jes'' @ [250] @ u ''s'',
      u ''cristo'', u ''esp'' @ [237] @ u ''ritu'', u ''santo'', u ''padre'']"

definition is_text_complete_enough :: "runtime \<Rightarrow> ustring \<Rightarrow> bool" where
  "is_text_complete_enough U text0 =
     (if text0 = [] \<or> py_strip text0 = [] then False
      else let text = py_strip text0 in
        if length text < 5 then False
        else if list_ex (endswith text) [u ''.'', u ''!'', u ''?'', u '':''] then True
        else if list_ex (endswith (str_lower U text)) religious_endings then True
        else if 3 \<le> length (py_split text) \<and> 15 \<le> length text then True
        else False)"

definition filler_words :: "ustring list" where
  "filler_words =
     [u ''oh'', u ''um'', u ''ah'', u ''eh'', u ''er'', u ''uh'', u ''hmm'', u ''mm'', u ''wait'',
      u ''espera'', u ''obtener'', u ''recibiendo'', u ''viendo'', u ''traduccion'',
      u ''traduction'', u ''ingles'', u ''ingl'' @ [233] @ u ''s'', u ''english'', u ''spanish'',
      u ''espa'' @ [241] @ u ''ol'', u ''al'', u ''la'', u ''el'', u ''los'', u ''las'', u ''un'',
      u ''una'', u ''de'', u ''del'', u ''y'', u ''o'', u ''pero'', u ''porque'', u ''que'',
      u ''como'', u ''cuando'', u ''donde'']"

definition normalize_text :: "runtime \<Rightarrow> ustring \<Rightarrow> ustring" where
  "normalize_text U text0 =
     (if text0 = [] then []
      else let text1 = str_lower U text0;
               text2 = py_join (u '' '') (py_split text1);
               text3 = filter (\<lambda>c. word_char U c \<or> py_isspace c) text2;
               words = py_split text3;
               filtered_words = filter (\<lambda>word. word \<notin> set filler_words \<and> 2 < length word) words
           in py_join (u '' '') filtered_words)"

text \<open>
  \<open>_calculate_similarity\<close>. The quotient of the two set sizes is a Python float; it is the
  exact quotient here, which compares with 0.6 as the float does for sets of fewer than
  \<open>2 ^ 50\<close> words.
\<close>

definition calculate_similarity :: "runtime \<Rightarrow> ustring \<Rightarrow> ustring \<Rightarrow> real" where
  "calculate_similarity U text1 text2 =
     (if text1 = text2 then 1
      else let text1_norm = normalize_text U text1; text2_norm = normalize_text U text2 in
        if text1_norm = text2_norm then 1
        else let words1 = set (py_split text1_norm); words2 = set (py_split text2_norm) in
          if words1 = {} \<or> words2 = {} then 0
          else let intersection = card (words1 \<inter> words2); union = card (words1 \<union> words2) in
            if union = 0 then 0 else real intersection / real union)"


text \<open>Values that the session metadata dictionaries hold.\<close>

datatype meta_value = MInt int | MStr ustring


section \<open>Session registry (app/services/session\_manager.py)\<close>

type_synonym session_id = ustring
type_synonym websocket = nat
type_synonym task = nat

text \<open>
  The six dictionaries of \<open>SessionManager\<close>. A timer is an \<open>asyncio.Task\<close>; the calls of
  \<open>Task.cancel()\<close> are recorded, in order, in \<open>cancelled\<close>.
\<close>

record registry =
  active_sessions :: "session_id \<rightharpoonup> websocket set"
  session_metadata :: "session_id \<rightharpoonup> (ustring \<rightharpoonup> meta_value)"
  session_text_buffers :: "session_id \<rightharpoonup> ustring"
  session_buffer_timers :: "session_id \<rightharpoonup> task"
  translation_buffers :: "session_id \<rightharpoonup> ustring"
  translation_timers :: "session_id \<rightharpoonup> task"
  cancelled :: "task list"

definition empty_registry :: registry where
  "empty_registry =
     \<lparr>active_sessions = Map.empty, session_metadata = Map.empty,
      session_text_buffers = Map.empty, session_buffer_timers = Map.empty,
      translation_buffers = Map.empty, translation_timers = Map.empty, cancelled = []\<rparr>"

text \<open>\<open>add_connection\<close>; \<open>created\<close> is \<open>now_utc().isoformat()\<close>.\<close>

definition add_connection :: "registry \<Rightarrow> session_id \<Rightarrow> websocket \<Rightarrow> ustring \<Rightarrow> registry" where
  "add_connection r sid ws created =
     (let r1 = (if sid \<notin> dom (active_sessions r)
                then r\<lparr>active_sessions := (active_sessions r)(sid \<mapsto> {}),
                       session_metadata := (session_metadata r)(sid \<mapsto>
                         [u ''created_at'' \<mapsto> MStr created, u ''paragraph_counter'' \<mapsto> MInt 0]),
                       session_text_buffers := (session_text_buffers r)(sid \<mapsto> [])\<rparr>
                else r);
          S = (case active_sessions r1 sid of None \<Rightarrow> {} | Some S \<Rightarrow> S)
      in r1\<lparr>active_sessions := (active_sessions r1)(sid \<mapsto> insert ws S)\<rparr>)"

text \<open>
  \<open>remove_connection\<close>. \<open>del self.session_metadata[session_id]\<close> raises \<open>KeyError\<close> when the
  key is missing; the registry is then left as it was at the raise.
\<close>

definition cleanup_text :: "registry \<Rightarrow> session_id \<Rightarrow> registry" where
  "cleanup_text r sid =
     (let r1 = (if sid \<in> dom (session_text_buffers r)
                then r\<lparr>session_text_buffers := (session_text_buffers r)(sid := None)\<rparr> else r)
      in case session_buffer_timers r1 sid of
           None \<Rightarrow> r1
         | Some t \<Rightarrow> r1\<lparr>session_buffer_timers := (session_buffer_timers r1)(sid := None),
                         cancelled := cancelled r1 @ [t]\<rparr>)"

definition cleanup_translation :: "registry \<Rightarrow> session_id \<Rightarrow> registry" where
  "cleanup_translation r sid =
     (let r1 = (if sid \<in> dom (translation_buffers r)
                then r\<lparr>translation_buffers := (translation_buffers r)(sid := None)\<rparr> else r)
      in case translation_timers r1 sid of
           None \<Rightarrow> r1
         | Some t \<Rightarrow> r1\<lparr>translation_timers := (translation_timers r1)(sid := None),
                         cancelled := cancelled r1 @ [t]\<rparr>)"

definition remove_connection ::
  "registry \<Rightarrow> session_id \<Rightarrow> websocket \<Rightarrow> registry \<times> py_error option" where
  "remove_connection r sid ws =
     (case active_sessions r sid of
        None \<Rightarrow> (r, None)
      | Some S \<Rightarrow>
          if S - {ws} = {}
          then (let r1 = r\<lparr>active_sessions := (active_sessions r)(sid := None)\<rparr>
                in case session_metadata r1 sid of
                     None \<Rightarrow> (r1, Some KeyError)
                   | Some md \<Rightarrow>
                       (cleanup_translation
                          (cleanup_text
                             (r1\<lparr>session_metadata := (session_metadata r1)(sid := None)\<rparr>) sid) sid,
                        None))
          else (r\<lparr>active_sessions := (active_sessions r)(sid \<mapsto> S - {ws})\<rparr>, None))"

text \<open>
  \<open>broadcast_to_session\<close>: \<open>send_fails ws\<close> says whether \<open>ws.send_json\<close> raises. The result
  holds the connections the message was sent to; the failing ones leave the set. The
  message is the same for all of them and decides nothing, so it is no argument here.
\<close>

definition broadcast_to_session ::
  "registry \<Rightarrow> session_id \<Rightarrow> websocket option \<Rightarrow> (websocket \<Rightarrow> bool) \<Rightarrow> registry \<times> websocket set" where
  "broadcast_to_session r sid exclude_websocket send_fails =
     (case active_sessions r sid of
        None \<Rightarrow> (r, {})
      | Some S \<Rightarrow>
          (let websockets_to_send = (case exclude_websocket of None \<Rightarrow> S | Some x \<Rightarrow> S - {x});
               disconnected = {w \<in> websockets_to_send. send_fails w}
           in (r\<lparr>active_sessions := (active_sessions r)(sid \<mapsto> S - disconnected)\<rparr>,
               websockets_to_send)))"

definition get_session_metadata :: "registry \<Rightarrow> session_id \<Rightarrow> (ustring \<rightharpoonup> meta_value)" where
  "get_session_metadata r sid =
     (case session_metadata r sid of None \<Rightarrow> Map.empty | Some md \<Rightarrow> md)"

definition update_session_metadata ::
  "registry \<Rightarrow> session_id \<Rightarrow> (ustring \<rightharpoonup> meta_value) \<Rightarrow> registry" where
  "update_session_metadata r sid updates =
     (case session_metadata r sid of
        None \<Rightarrow> r
      | Some md \<Rightarrow> r\<lparr>session_metadata := (session_metadata r)(sid \<mapsto> md ++ updates)\<rparr>)"

definition get_text_buffer :: "registry \<Rightarrow> session_id \<Rightarrow> ustring" where
  "get_text_buffer r sid = (case session_text_buffers r sid of None \<Rightarrow> [] | Some b \<Rightarrow> b)"

definition add_to_text_buffer :: "registry \<Rightarrow> session_id \<Rightarrow> ustring \<Rightarrow> registry" where
  "add_to_text_buffer r sid text =
     (let b0 = (case session_text_buffers r sid of None \<Rightarrow> [] | Some b \<Rightarrow> b);
          b1 = (if b0 \<noteq> [] then b0 @ u '' '' else b0)
      in r\<lparr>session_text_buffers := (session_text_buffers r)(sid \<mapsto> b1 @ text)\<rparr>)"

definition clear_text_buffer :: "registry \<Rightarrow> session_id \<Rightarrow> ustring \<times> registry" where
  "clear_text_buffer r sid =
     (case session_text_buffers r sid of None \<Rightarrow> [] | Some b \<Rightarrow> b,
      r\<lparr>session_text_buffers := (session_text_buffers r)(sid \<mapsto> [])\<rparr>)"

definition set_buffer_timer :: "registry \<Rightarrow> session_id \<Rightarrow> task \<Rightarrow> registry" where
  "set_buffer_timer r sid timer_task =
     (let r1 = (case session_buffer_timers r sid of
                  None \<Rightarrow> r | Some t \<Rightarrow> r\<lparr>cancelled := cancelled r @ [t]\<rparr>)
      in r1\<lparr>session_buffer_timers := (session_buffer_timers r1)(sid \<mapsto> timer_task)\<rparr>)"

definition cancel_buffer_timer :: "registry \<Rightarrow> session_id \<Rightarrow> registry" where
  "cancel_buffer_timer r sid =
     (case session_buffer_timers r sid of
        None \<Rightarrow> r
      | Some t \<Rightarrow> r\<lparr>session_buffer_timers := (session_buffer_timers r)(sid := None),
                      cancelled := cancelled r @ [t]\<rparr>)"

text \<open>\<open>dflt\<close> is \<open>config.TRANSLATION_DEFAULT_TARGET\<close>.\<close>

definition get_target_language :: "ustring \<Rightarrow> registry \<Rightarrow> session_id \<Rightarrow> meta_value" where
  "get_target_language dflt r sid =
     (case get_session_metadata r sid (u ''target_language'') of
        None \<Rightarrow> MStr dflt | Some v \<Rightarrow> v)"

definition set_target_language :: "registry \<Rightarrow> session_id \<Rightarrow> ustring \<Rightarrow> registry" where
  "set_target_language r sid language =
     update_session_metadata r sid [u ''target_language'' \<mapsto> MStr language]"


definition get_translation_buffer :: "registry \<Rightarrow> session_id \<Rightarrow> ustring" where
  "get_translation_buffer r sid = (case translation_buffers r sid of None \<Rightarrow> [] | Some b \<Rightarrow> b)"

definition add_to_translation_buffer :: "registry \<Rightarrow> session_id \<Rightarrow> ustring \<Rightarrow> registry" where
  "add_to_translation_buffer r sid text =
     (let b0 = (case translation_buffers r sid of None \<Rightarrow> [] | Some b \<Rightarrow> b);
          b1 = (if b0 \<noteq> [] then b0 @ u '' '' else b0)
      in r\<lparr>translation_buffers := (translation_buffers r)(sid \<mapsto> b1 @ py_strip text)\<rparr>)"

definition clear_translation_buffer :: "registry \<Rightarrow> session_id \<Rightarrow> ustring \<times> registry" where
  "clear_translation_buffer r sid =
     (case translation_buffers r sid of None \<Rightarrow> [] | Some b \<Rightarrow> b,
      r\<lparr>translation_buffers := (translation_buffers r)(sid \<mapsto> [])\<rparr>)"

definition set_translation_timer :: "registry \<Rightarrow> session_id \<Rightarrow> task \<Rightarrow> registry" where
  "set_translation_timer r sid timer_task =
     (let r1 = (case translation_timers r sid of
                  None \<Rightarrow> r | Some t \<Rightarrow> r\<lparr>cancelled := cancelled r @ [t]\<rparr>)
      in r1\<lparr>translation_timers := (translation_timers r1)(sid \<mapsto> timer_task)\<rparr>)"

definition cancel_translation_timer :: "registry \<Rightarrow> session_id \<Rightarrow> registry" where
  "cancel_translation_timer r sid =
     (case translation_timers r sid of
        None \<Rightarrow> r
      | Some t \<Rightarrow> r\<lparr>translation_timers := (translation_timers r)(sid := None),
                      cancelled := cancelled r @ [t]\<rparr>)"

text \<open>
  The operations of the registry that change it, as data, and the registry after one of
  them. The getters (\<open>get_session_metadata\<close>, \<open>get_text_buffer\<close>, \<open>get_translation_buffer\<close>,
  \<open>get_target_language\<close>) are functions of the registry and change nothing.
\<close>

datatype reg_op =
    AddConnection session_id websocket ustring
  | RemoveConnection session_id websocket
  | BroadcastToSession session_id "websocket option" "websocket \<Rightarrow> bool"
  | UpdateSessionMetadata session_id "ustring \<rightharpoonup> meta_value"
  | SetTargetLanguage session_id ustring
  | AddToTextBuffer session_id ustring
  | ClearTextBuffer session_id
  | SetBufferTimer session_id task
  | CancelBufferTimer session_id
  | AddToTranslationBuffer session_id ustring
  | ClearTranslationBuffer session_id
  | SetTranslationTimer session_id task
  | CancelTranslationTimer session_id

fun apply_op :: "registry \<Rightarrow> reg_op \<Rightarrow> registry" where
  "apply_op r (AddConnection sid ws created) = add_connection r sid ws created"
| "apply_op r (RemoveConnection sid ws) = fst (remove_connection r sid ws)"
| "apply_op r (BroadcastToSession sid ex fails) = fst (broadcast_to_session r sid ex fails)"
| "apply_op r (UpdateSessionMetadata sid updates) = update_session_metadata r sid updates"
| "apply_op r (SetTargetLanguage sid language) = set_target_language r sid language"
| "apply_op r (AddToTextBuffer sid text) = add_to_text_buffer r sid text"
| "apply_op r (ClearTextBuffer sid) = snd (clear_text_buffer r sid)"
| "apply_op r (SetBufferTimer sid t) = set_buffer_timer r sid t"
| "apply_op r (CancelBufferTimer sid) = cancel_buffer_timer r sid"
| "apply_op r (AddToTranslationBuffer sid text) = add_to_translation_buffer r sid text"
| "apply_op r (ClearTranslationBuffer sid) = snd (clear_translation_buffer r sid)"
| "apply_op r (SetTranslationTimer sid t) = set_translation_timer r sid t"
| "apply_op r (CancelTranslationTimer sid) = cancel_translation_timer r sid"

text \<open>No entry for the key in any of the six dictionaries.\<close>

definition absent :: "registry \<Rightarrow> session_id \<Rightarrow> bool" where
  "absent r k \<longleftrightarrow>
     active_sessions r k = None \<and> session_metadata r k = None \<and>
     session_text_buffers r k = None \<and> session_buffer_timers r k = None \<and>
     translation_buffers r k = None \<and> translation_timers r k = None"

text \<open>The join, and the buffer writes and timer settings, which store under their key.\<close>

fun stores_under :: "reg_op \<Rightarrow> session_id \<Rightarrow> bool" where
  "stores_under (AddConnection sid ws created) k = (sid = k)"
| "stores_under (AddToTextBuffer sid text) k = (sid = k)"
| "stores_under (ClearTextBuffer sid) k = (sid = k)"
| "stores_under (SetBufferTimer sid t) k = (sid = k)"
| "stores_under (AddToTranslationBuffer sid text) k = (sid = k)"
| "stores_under (ClearTranslationBuffer sid) k = (sid = k)"
| "stores_under (SetTranslationTimer sid t) k = (sid = k)"
| "stores_under op k = False"


section \<open>Decoded JSON values\<close>

text \<open>Python truth value, \<open>a and b\<close>, \<open>a or b\<close> (both return one of their operands).\<close>

fun py_truthy :: "json \<Rightarrow> bool" where
  "py_truthy JNull = False"
| "py_truthy (JBool b) = b"
| "py_truthy (JNum x) = (x \<noteq> 0)"
| "py_truthy (JStr s) = (s \<noteq> [])"
| "py_truthy (JArr vs) = (vs \<noteq> [])"
| "py_truthy (JObj kvs) = (kvs \<noteq> [])"

definition py_and :: "json \<Rightarrow> json \<Rightarrow> json" where
  "py_and a b = (if py_truthy a then b else a)"

definition py_or :: "json \<Rightarrow> json \<Rightarrow> json" where
  "py_or a b = (if py_truthy a then a else b)"

text \<open>\<open>d.get(k)\<close> and \<open>d.get(k, default)\<close> on a decoded JSON object.\<close>

definition dict_get :: "(ustring \<rightharpoonup> json) \<Rightarrow> ustring \<Rightarrow> json" where
  "dict_get d k = (case d k of None \<Rightarrow> JNull | Some v \<Rightarrow> v)"

definition dict_get_default :: "(ustring \<rightharpoonup> json) \<Rightarrow> ustring \<Rightarrow> json \<Rightarrow> json" where
  "dict_get_default d k dflt = (case d k of None \<Rightarrow> dflt | Some v \<Rightarrow> v)"

text \<open>\<open>str(v)\<close> inside an f-string.\<close>

definition py_str :: "runtime \<Rightarrow> json \<Rightarrow> ustring" where
  "py_str U v = (case v of JStr s \<Rightarrow> s | _ \<Rightarrow> str_of U v)"

text \<open>Reading a field of a message that the code built.\<close>

definition field :: "json \<Rightarrow> ustring \<Rightarrow> json option" where
  "field v k = (case v of JObj kvs \<Rightarrow> map_of kvs k | _ \<Rightarrow> None)"


section \<open>Translation service (app/services/translation\_service\_v2.py)\<close>

text \<open>
  \<open>_texts_are_similar\<close>. The float quotient is the exact quotient here; it compares with
  the threshold 0.9 as the float does for sets of fewer than \<open>2 ^ 50\<close> words.
\<close>

definition texts_are_similar :: "ustring \<Rightarrow> ustring \<Rightarrow> real \<Rightarrow> bool" where
  "texts_are_similar text1 text2 threshold =
     (if text1 = text2 then True
      else let words1 = set (py_split text1); words2 = set (py_split text2) in
        if words1 = {} \<or> words2 = {} then False
        else let intersection = card (words1 \<inter> words2); union = card (words1 \<union> words2) in
          if union = 0 then False else threshold \<le> real intersection / real union)"

definition error_patterns :: "ustring list" where
  "error_patterns =
     [u ''error'', u ''failed'', u ''unable'', u ''sorry'', u ''i cannot'', u ''i'' @ [39] @ u ''m sorry'',
      u ''no translation'', u ''translation failed'', u ''api error'']"

definition is_valid_translation :: "runtime \<Rightarrow> ustring \<Rightarrow> bool" where
  "is_valid_translation U translation =
     (if translation = [] \<or> py_strip translation = [] then False
      else let translation_lower = py_strip (str_lower U translation) in
        if list_ex (contains translation_lower) error_patterns then False
        else if length (py_strip translation) < 3 then False
        else True)"

text \<open>
  What happens outside the process, given as functions: whether the configured provider
  exists and is available, the chunks its stream yields for a request (up to an exception,
  which \<open>translate_stream\<close> catches), the error text with which sending audio to the
  transcription socket raises (\<open>None\<close>: it does not), and the order in which a Python
  \<open>set\<close> lists its elements, which the language leaves open.
\<close>

record env =
  rt :: runtime
  TRANSLATION_ENABLED :: bool
  provider_available :: bool
  provider_chunks :: "session_id \<Rightarrow> ustring \<Rightarrow> ustring \<Rightarrow> ustring \<Rightarrow> ustring list"
  audio_send_error :: "nat \<Rightarrow> ustring option"
  set_listing :: "ustring set \<Rightarrow> ustring list"

text \<open>
  The visible actions: a message sent to a client connection with \<open>send_json\<close> (a failing
  send is caught and logged), audio bytes sent to the transcription socket, a call of the
  translation provider's stream, and a spawned translation task.
\<close>

datatype event =
    SendJson websocket json
  | ProviderAudio nat "nat list"
  | ProviderCall session_id ustring ustring ustring
  | CreateTranslateTask session_id ustring ustring json

text \<open>\<open>TranslationServiceV2.translate_stream\<close>; the rate-limit pause changes no result.\<close>

definition translate_stream ::
  "env \<Rightarrow> session_id \<Rightarrow> ustring \<Rightarrow> ustring \<Rightarrow> ustring \<Rightarrow> ustring list \<times> event list" where
  "translate_stream E sid text target_lang source_lang =
     (if \<not> provider_available E then ([], [])
      else if py_strip text = [] then ([], [])
      else (provider_chunks E sid text target_lang source_lang,
            [ProviderCall sid text target_lang source_lang]))"

text \<open>
  The translation cache is a Python \<open>dict\<close>, which keeps insertion order: a list of
  key-value pairs. \<open>cache[k] = v\<close> replaces in place or appends.
\<close>

type_synonym cache = "(ustring \<times> ustring) list"

fun dict_set :: "ustring \<Rightarrow> ustring \<Rightarrow> cache \<Rightarrow> cache" where
  "dict_set k v [] = [(k, v)]"
| "dict_set k v ((k', v') # kvs) = (if k' = k then (k, v) # kvs else (k', v') # dict_set k v kvs)"

definition fuzzy_match :: "runtime \<Rightarrow> ustring \<Rightarrow> ustring \<Rightarrow> ustring \<times> ustring \<Rightarrow> bool" where
  "fuzzy_match U clean_text suffix kv =
     (endswith (fst kv) suffix \<and>
      texts_are_similar (str_lower U clean_text) (take (length (fst kv) - length suffix) (fst kv)) (9 / 10))"

definition translate_text ::
  "env \<Rightarrow> cache \<Rightarrow> session_id \<Rightarrow> ustring \<Rightarrow> ustring \<Rightarrow> ustring
     \<Rightarrow> ustring option \<times> cache \<times> event list" where
  "translate_text E cache sid text target_lang source_lang =
     (let clean_text = py_strip text in
      if clean_text = [] then (None, cache, [])
      else let suffix = u ''_'' @ source_lang @ u ''_'' @ target_lang;
               cache_key = str_lower (rt E) clean_text @ suffix in
        case map_of cache cache_key of
          Some cached_result \<Rightarrow> (Some cached_result, cache, [])
        | None \<Rightarrow>
            (case find (fuzzy_match (rt E) clean_text suffix) cache of
               Some (existing_key, cached_result) \<Rightarrow> (Some cached_result, cache, [])
             | None \<Rightarrow>
                 (let (chunks, evs) = translate_stream E sid text target_lang source_lang;
                      result = (if chunks \<noteq> [] then Some (py_join (u '' '') chunks) else None);
                      cache' = (case result of
                                  None \<Rightarrow> cache
                                | Some r \<Rightarrow>
                                    if r \<noteq> [] \<and> is_valid_translation (rt E) r
                                    then dict_set cache_key r
                                           (if 1000 \<le> length cache
                                            then drop (max 1 (length cache div 10)) cache else cache)
                                    else cache)
                  in (result, cache', evs))))"


section \<open>Transcription bridge (app/services/assemblyai.py, app/routers/websocket.py)\<close>

text \<open>
  The module-level dictionaries, and the cache of the translation service, which
  \<open>translate_and_broadcast_async\<close> reaches through \<open>translate_text\<close>. Times are seconds.
\<close>

record bridge =
  assembly_sessions :: "session_id \<rightharpoonup> nat"
  active_connections :: "session_id \<rightharpoonup> websocket"
  translated_texts :: "session_id \<rightharpoonup> ustring set"
  last_translation_times :: "session_id \<rightharpoonup> real"
  translation_cache :: cache

definition empty_bridge :: bridge where
  "empty_bridge =
     \<lparr>assembly_sessions = Map.empty, active_connections = Map.empty,
      translated_texts = Map.empty, last_translation_times = Map.empty, translation_cache = []\<rparr>"

text \<open>
  \<open>websocket_endpoint\<close> stores its connection on entry (line 44) and deletes the session's
  entry in its \<open>finally\<close> block.
\<close>

definition websocket_endpoint_store :: "bridge \<Rightarrow> session_id \<Rightarrow> websocket \<Rightarrow> bridge" where
  "websocket_endpoint_store st sid ws = st\<lparr>active_connections := (active_connections st)(sid \<mapsto> ws)\<rparr>"

definition websocket_endpoint_finally :: "bridge \<Rightarrow> session_id \<Rightarrow> bridge" where
  "websocket_endpoint_finally st sid =
     (if sid \<in> dom (active_connections st)
      then st\<lparr>active_connections := (active_connections st)(sid := None)\<rparr> else st)"

definition send_to_session :: "bridge \<Rightarrow> session_id \<Rightarrow> json \<Rightarrow> event list" where
  "send_to_session st sid message =
     (case active_connections st sid of None \<Rightarrow> [] | Some ws \<Rightarrow> [SendJson ws message])"

text \<open>The \<open>live_message\<close> dictionary of a Turn event; \<open>now_iso\<close> is the timestamp.\<close>

definition live_message ::
  "env \<Rightarrow> ustring \<Rightarrow> session_id \<Rightarrow> (ustring \<rightharpoonup> json) \<Rightarrow> ustring \<Rightarrow> json" where
  "live_message E now_iso sid data transcript_text =
     (let end_of_turn = dict_get_default data (u ''end_of_turn'') (JBool False);
          turn_is_formatted = dict_get_default data (u ''turn_is_formatted'') (JBool False)
      in JObj
        [(u ''type'', JStr (u ''live_transcript'')),
         (u ''data'', JObj
           [(u ''text'', JStr transcript_text),
            (u ''text_translated'', JNull),
            (u ''target_language'', if TRANSLATION_ENABLED E then JStr (u ''es'') else JNull),
            (u ''translation_status'',
               if TRANSLATION_ENABLED E \<and> \<not> py_truthy end_of_turn then JStr (u ''translating'')
               else if \<not> TRANSLATION_ENABLED E then JStr (u ''disabled'') else JStr (u ''ready'')),
            (u ''timestamp'', JStr now_iso),
            (u ''session_id'', JStr sid),
            (u ''is_final'',
               py_and end_of_turn
                 (py_or turn_is_formatted (JBool (u ''turn_is_formatted'' \<in> dom data))))])])"

text \<open>
  \<open>handle_assemblyai_message\<close>. A transcript that is true but not a string has no
  \<open>strip\<close>: the \<open>AttributeError\<close> leaves the function (its caller logs it).
\<close>

definition handle_assemblyai_message ::
  "env \<Rightarrow> bridge \<Rightarrow> ustring \<Rightarrow> session_id \<Rightarrow> (ustring \<rightharpoonup> json) \<Rightarrow> event list \<times> py_error option" where
  "handle_assemblyai_message E st now_iso sid data =
     (let msg_type = data (u ''type'') in
      if msg_type = Some (JStr (u ''Begin'')) then ([], None)
      else if msg_type = Some (JStr (u ''Turn'')) then
        (let transcript = dict_get_default data (u ''transcript'') (JStr []);
             end_of_turn = dict_get_default data (u ''end_of_turn'') (JBool False)
         in if \<not> py_truthy transcript then ([], None)
            else case transcript of
              JStr s \<Rightarrow>
                if py_strip s = [] then ([], None)
                else (let transcript_text = py_strip s;
                          message = live_message E now_iso sid data transcript_text
                      in (send_to_session st sid message @
                          (if TRANSLATION_ENABLED E \<and> transcript_text \<noteq> [] \<and> py_truthy end_of_turn
                              \<and> is_text_complete_enough (rt E) transcript_text
                           then [CreateTranslateTask sid transcript_text (u ''es'') message] else []),
                          None))
            | _ \<Rightarrow> ([], Some AttributeError))
      else if msg_type = Some (JStr (u ''Termination'')) then ([], None)
      else if u ''error'' \<in> dom data then
        (send_to_session st sid
           (JObj [(u ''type'', JStr (u ''error'')),
                  (u ''message'', JStr (u ''Transcription error: '' @
                     py_str (rt E) (dict_get_default data (u ''error'') (JStr (u ''Unknown error'')))))]),
         None)
      else ([], None))"

text \<open>
  \<open>translate_and_broadcast_async\<close>, run from its first statement to its last without
  interleaving. \<open>current_time\<close> is \<open>time.time()\<close>. Nothing in the \<open>try\<close> block raises in
  this model, so the \<open>except\<close> branch is not entered. The parameter \<open>original_message\<close>
  of the source is never read and is left out.
\<close>

definition translation_message ::
  "ustring \<Rightarrow> session_id \<Rightarrow> ustring \<Rightarrow> ustring \<Rightarrow> ustring option \<Rightarrow> json" where
  "translation_message now_iso sid transcript_text target_language translated_text =
     JObj
       [(u ''type'', JStr (u ''translation_update'')),
        (u ''data'', JObj
          [(u ''original_text'', JStr transcript_text),
           (u ''text_translated'', case translated_text of None \<Rightarrow> JNull | Some r \<Rightarrow> JStr r),
           (u ''target_language'', JStr target_language),
           (u ''translation_status'',
              if translated_text \<noteq> None \<and> translated_text \<noteq> Some []
              then JStr (u ''success'') else JStr (u ''failed'')),
           (u ''timestamp'', JStr now_iso),
           (u ''session_id'', JStr sid),
           (u ''is_final'', JBool True)])]"

definition translate_and_broadcast_async ::
  "env \<Rightarrow> bridge \<Rightarrow> real \<Rightarrow> ustring \<Rightarrow> session_id \<Rightarrow> ustring \<Rightarrow> ustring \<Rightarrow> bridge \<times> event list" where
  "translate_and_broadcast_async E st current_time now_iso sid transcript_text target_language =
     (if (case last_translation_times st sid of
            None \<Rightarrow> False | Some last_time \<Rightarrow> current_time - last_time < 1)
      then (st, [])
      else
        (let clean_text = normalize_text (rt E) transcript_text;
             st1 = (if sid \<notin> dom (translated_texts st)
                    then st\<lparr>translated_texts := (translated_texts st)(sid \<mapsto> {})\<rparr> else st);
             seen = (case translated_texts st1 sid of None \<Rightarrow> {} | Some S \<Rightarrow> S)
         in if clean_text \<in> seen then (st1, [])
            else if \<exists>existing_text \<in> seen.
                      6 / 10 < calculate_similarity (rt E) clean_text existing_text
            then (st1, [])
            else
              (let st2 = st1\<lparr>last_translation_times :=
                               (last_translation_times st1)(sid \<mapsto> current_time)\<rparr>;
                   added = insert clean_text seen;
                   kept = (if 100 < card added
                           then set (drop (length (set_listing E added) - 50) (set_listing E added))
                           else added);
                   st3 = st2\<lparr>translated_texts := (translated_texts st2)(sid \<mapsto> kept)\<rparr>;
                   (translated_text, cache', evs) =
                      translate_text E (translation_cache st3) sid transcript_text target_language
                        (u ''auto'');
                   st4 = st3\<lparr>translation_cache := cache'\<rparr>
               in (st4,
                   evs @ send_to_session st4 sid
                     (translation_message now_iso sid transcript_text target_language
                        translated_text)))))"

text \<open>
  \<open>process_audio_chunk\<close>: the sent events and what the caller gets (\<open>None\<close>: a normal
  return).
\<close>

definition process_audio_chunk ::
  "env \<Rightarrow> bridge \<Rightarrow> session_id \<Rightarrow> nat list \<Rightarrow> event list \<times> py_error option" where
  "process_audio_chunk E st sid audio_data =
     (if length audio_data < 100 then ([], None)
      else case assembly_sessions st sid of
        None \<Rightarrow> ([], None)
      | Some websocket \<Rightarrow>
          (case audio_send_error E websocket of
             None \<Rightarrow> ([ProviderAudio websocket audio_data], None)
           | Some e \<Rightarrow>
               (ProviderAudio websocket audio_data #
                send_to_session st sid
                  (JObj [(u ''type'', JStr (u ''error'')),
                         (u ''message'', JStr (u ''Failed to process audio: '' @ e))]),
                None)))"


text \<open>Reading the events: who was sent a message, and the messages sent.\<close>

fun recipients :: "event list \<Rightarrow> websocket list" where
  "recipients [] = []"
| "recipients (SendJson ws m # evs) = ws # recipients evs"
| "recipients (ev # evs) = recipients evs"

fun sent_messages :: "event list \<Rightarrow> json list" where
  "sent_messages [] = []"
| "sent_messages (SendJson ws m # evs) = m # sent_messages evs"
| "sent_messages (ev # evs) = sent_messages evs"


definition data_field :: "json \<Rightarrow> ustring \<Rightarrow> json option" where
  "data_field message k = (case field message (u ''data'') of None \<Rightarrow> None | Some d \<Rightarrow> field d k)"

text \<open>
  A concrete environment for the examples: translation switched on, a provider that
  answers every request with the one chunk "hola", a transcription socket that accepts
  audio, and sets listed in lexicographic order.
\<close>

definition demo_env :: env where
  "demo_env =
     \<lparr>rt = latin1, TRANSLATION_ENABLED = True, provider_available = True,
      provider_chunks = (\<lambda>sid text target_lang source_lang. [u ''hola'']),
      audio_send_error = (\<lambda>ws. None),
      set_listing = sorted_list_of_set\<rparr>"

text \<open>A Turn event with \<open>end_of_turn\<close> true and \<open>turn_is_formatted\<close> false.\<close>

definition turn_unformatted :: "ustring \<rightharpoonup> json" where
  "turn_unformatted =
     [u ''type'' \<mapsto> JStr (u ''Turn''), u ''transcript'' \<mapsto> JStr (u ''Hello there.''),
      u ''end_of_turn'' \<mapsto> JBool True, u ''turn_is_formatted'' \<mapsto> JBool False]"

text \<open>A Turn event with \<open>end_of_turn\<close> true that has no \<open>turn_is_formatted\<close> field.\<close>

definition turn_without_format :: "ustring \<rightharpoonup> json" where
  "turn_without_format =
     [u ''type'' \<mapsto> JStr (u ''Turn''), u ''transcript'' \<mapsto> JStr (u ''Hello there.''),
      u ''end_of_turn'' \<mapsto> JBool True]"


section \<open>Paragraph refiner (app/services/ai\_providers.py)\<close>

record refiner_config =
  PARAGRAPHIZER_PROVIDER :: ustring
  PARAGRAPHIZER_HTTP_URL :: ustring
  PARAGRAPHIZER_COOLDOWN_SECONDS :: int
  PARAGRAPHIZER_RETRY_BACKOFF_SECONDS :: int
  GOOGLE_API_KEY :: ustring

text \<open>
  What a provider answers to the one request of a refinement. An HTTP exchange raises, or
  gives a status code, the \<open>Retry-After\<close> header if present, and the decoded body if it is
  a JSON object. Gemini gives \<open>response.text\<close>, or nothing where the call raises. The
  request (headers, instruction, text) decides nothing in the functions below beyond the
  answer it gets, so the backends take the answer and not the request.
\<close>

datatype http_reply = HttpRaises | HttpReply int "ustring option" "(ustring \<rightharpoonup> json) option"

record replies =
  gemini_reply :: "ustring option"
  http_reply :: http_reply
  lemur_reply :: http_reply

text \<open>
  The visible actions of the refiner: \<open>asyncio.create_task(_refine_after_delay(session_id,
  paragraph_data, delay))\<close>, and a message broadcast to a set of connections.
\<close>

datatype refine_event =
    CreateRefineTask session_id "ustring \<rightharpoonup> json" real
  | Broadcast session_id json "websocket set"

record refiner =
  paragraphizer_last_call_at :: "session_id \<rightharpoonup> real"
  session_manager :: registry

text \<open>\<open>_refine_after_delay\<close> sleeps this long before it calls the refinement again.\<close>

definition refine_after_delay_sleep :: "real \<Rightarrow> real" where
  "refine_after_delay_sleep delay_seconds = max 0 delay_seconds"

text \<open>The backoff of a 429 reply: \<open>float(retry_after)\<close>, or the configured default.\<close>

definition retry_backoff :: "refiner_config \<Rightarrow> runtime \<Rightarrow> ustring option \<Rightarrow> real" where
  "retry_backoff C U retry_after =
     (case retry_after of
        None \<Rightarrow> real_of_int (PARAGRAPHIZER_RETRY_BACKOFF_SECONDS C)
      | Some s \<Rightarrow> (case float_of U s of
                     None \<Rightarrow> real_of_int (PARAGRAPHIZER_RETRY_BACKOFF_SECONDS C)
                   | Some x \<Rightarrow> x))"

definition refine_with_gemini :: "refiner_config \<Rightarrow> ustring option \<Rightarrow> json" where
  "refine_with_gemini C reply =
     (if GOOGLE_API_KEY C = [] then JNull
      else case reply of
        None \<Rightarrow> JNull
      | Some t \<Rightarrow> if t \<noteq> [] then JStr (py_strip t) else JNull)"

definition refine_with_http ::
  "refiner_config \<Rightarrow> runtime \<Rightarrow> http_reply \<Rightarrow> session_id \<Rightarrow> (ustring \<rightharpoonup> json)
     \<Rightarrow> json \<times> refine_event list" where
  "refine_with_http C U reply sid paragraph_data =
     (if PARAGRAPHIZER_HTTP_URL C = [] then (JNull, [])
      else case reply of
        HttpRaises \<Rightarrow> (JNull, [])
      | HttpReply status_code retry_after body \<Rightarrow>
          if status_code = 429
          then (JNull, [CreateRefineTask sid paragraph_data (retry_backoff C U retry_after)])
          else if status_code < 400
          then (case body of
                  None \<Rightarrow> (JNull, [])
                | Some data \<Rightarrow>
                    (py_or (py_or (dict_get data (u ''refined_text'')) (dict_get data (u ''text'')))
                       (dict_get data (u ''response'')), []))
          else (JNull, []))"

text \<open>
  \<open>_refine_with_lemur\<close>: on 429 the backoff is computed and logged ("retrying in ...s"),
  and the function returns; it creates no task.
\<close>

definition refine_with_lemur ::
  "refiner_config \<Rightarrow> runtime \<Rightarrow> http_reply \<Rightarrow> json \<times> refine_event list" where
  "refine_with_lemur C U reply =
     (case reply of
        HttpRaises \<Rightarrow> (JNull, [])
      | HttpReply status_code retry_after body \<Rightarrow>
          if status_code = 429 then (JNull, [])
          else if status_code < 400
          then (case body of
                  None \<Rightarrow> (JNull, [])
                | Some data \<Rightarrow>
                    (py_or (py_or (py_or (dict_get data (u ''response''))
                                         (dict_get data (u ''responses'')))
                                  (dict_get data (u ''result'')))
                       (dict_get data (u ''text'')), []))
          else (JNull, []))"

text \<open>
  The legacy fallback \<open>"\n".join(v.get("text", "") for v in verses)\<close>; \<open>None\<close> where it
  raises (an item that is no object, a text that is no string, a value that cannot be
  iterated).
\<close>

fun verse_text :: "json \<Rightarrow> ustring option" where
  "verse_text (JObj kvs) =
     (case map_of kvs (u ''text'') of
        None \<Rightarrow> Some [] | Some (JStr s) \<Rightarrow> Some s | Some v \<Rightarrow> None)"
| "verse_text v = None"

fun verses_text :: "json \<Rightarrow> ustring option" where
  "verses_text (JArr vs) =
     (if list_all (\<lambda>v. verse_text v \<noteq> None) vs
      then Some (py_join [10] (map (\<lambda>v. case verse_text v of None \<Rightarrow> [] | Some s \<Rightarrow> s) vs))
      else None)"
| "verses_text (JStr s) = (if s = [] then Some [] else None)"
| "verses_text (JObj kvs) = (if kvs = [] then Some [] else None)"
| "verses_text v = None"

text \<open>
  \<open>refine_and_broadcast_paragraph\<close>. \<open>now\<close> is \<open>now_utc()\<close> in seconds, \<open>now_iso\<close> the
  completion timestamp. Every exception is caught by the outer \<open>try\<close>: the function then
  ends with what it had done so far.
\<close>

definition refine_and_broadcast_paragraph ::
  "refiner_config \<Rightarrow> runtime \<Rightarrow> replies \<Rightarrow> refiner \<Rightarrow> real \<Rightarrow> ustring \<Rightarrow> session_id
     \<Rightarrow> (ustring \<rightharpoonup> json) \<Rightarrow> (websocket \<Rightarrow> bool) \<Rightarrow> refiner \<times> refine_event list" where
  "refine_and_broadcast_paragraph C U R st now now_iso sid paragraph_data send_fails =
     (case (case paragraphizer_last_call_at st sid of
              None \<Rightarrow> None
            | Some last_call \<Rightarrow>
                if now - last_call < real_of_int (PARAGRAPHIZER_COOLDOWN_SECONDS C)
                then Some (real_of_int (PARAGRAPHIZER_COOLDOWN_SECONDS C) - (now - last_call))
                else None) of
        Some delay \<Rightarrow> (st, [CreateRefineTask sid paragraph_data delay])
      | None \<Rightarrow>
          (let buffered = dict_get_default paragraph_data (u ''buffered_text'') (JStr []);
               extracted =
                 (if py_truthy buffered then Some buffered
                  else map_option JStr
                         (verses_text (dict_get_default paragraph_data (u ''verses'') (JArr []))))
           in case extracted of
                None \<Rightarrow> (st, [])
              | Some text \<Rightarrow>
                  if \<not> py_truthy text then (st, [])
                  else
                    (let (refined_text, evs) =
                           (if PARAGRAPHIZER_PROVIDER C = u ''gemini''
                            then (refine_with_gemini C (gemini_reply R), [])
                            else if PARAGRAPHIZER_PROVIDER C = u ''http''
                            then refine_with_http C U (http_reply R) sid paragraph_data
                            else refine_with_lemur C U (lemur_reply R))
                     in if \<not> py_truthy refined_text then (st, evs)
                        else case refined_text of
                          JStr s \<Rightarrow>
                            if py_strip s = [] then (st, evs)
                            else
                              (let (reg, sent_to) =
                                     broadcast_to_session (session_manager st) sid None send_fails
                               in (st\<lparr>paragraphizer_last_call_at :=
                                         (paragraphizer_last_call_at st)(sid \<mapsto> now),
                                       session_manager := reg\<rparr>,
                                   evs @ [Broadcast sid
                                     (JObj [(u ''type'', JStr (u ''paragraph_refined'')),
                                            (u ''data'', JObj
                                              [(u ''session_id'', JStr sid),
                                               (u ''paragraph_number'',
                                                  dict_get paragraph_data (u ''paragraph_number'')),
                                               (u ''refined_text'', JStr (py_strip s)),
                                               (u ''completed_at'', JStr now_iso)])])
                                     sent_to]))
                        | _ \<Rightarrow> (st, evs))))"

text \<open>
  The rate-limit scenario: one client in session "s1", a paragraph of buffered text, no
  earlier refinement, and a provider that answers 429 with \<open>Retry-After: 3\<close>.
\<close>

definition http_config :: refiner_config where
  "http_config =
     \<lparr>PARAGRAPHIZER_PROVIDER = u ''http'', PARAGRAPHIZER_HTTP_URL = u ''http://refiner.example/refine'',
      PARAGRAPHIZER_COOLDOWN_SECONDS = 5, PARAGRAPHIZER_RETRY_BACKOFF_SECONDS = 10,
      GOOGLE_API_KEY = []\<rparr>"

definition lemur_config :: refiner_config where
  "lemur_config = http_config\<lparr>PARAGRAPHIZER_PROVIDER := u ''lemur''\<rparr>"

definition rate_limited :: replies where
  "rate_limited =
     \<lparr>gemini_reply = None, http_reply = HttpReply 429 (Some (u ''3'')) None,
      lemur_reply = HttpReply 429 (Some (u ''3'')) None\<rparr>"

definition refiner0 :: refiner where
  "refiner0 =
     \<lparr>paragraphizer_last_call_at = Map.empty,
      session_manager = add_connection empty_registry (u ''s1'') 7 (u ''2025-01-01T00:00:00'')\<rparr>"

definition paragraph1 :: "ustring \<rightharpoonup> json" where
  "paragraph1 = [u ''buffered_text'' \<mapsto> JStr (u ''first line second line''),
                 u ''paragraph_number'' \<mapsto> JNum 1]"


text \<open>
  For the cache examples: a provider that answers with the request text itself, three
  texts of 10, 11 and 12 words, each extending the one before, and the cache that
  translating the first and the third from an empty cache leaves.
\<close>

definition echo_env :: env where
  "echo_env = demo_env\<lparr>provider_chunks := (\<lambda>sid text target_lang source_lang. [text])\<rparr>"

definition text_a :: ustring where "text_a = u ''a b c d e f g h i j''"
definition text_b :: ustring where "text_b = u ''a b c d e f g h i j k''"
definition text_c :: ustring where "text_c = u ''a b c d e f g h i j k l''"

definition cache_ac :: cache where
  "cache_ac = [(text_a @ u ''_auto_es'', text_a), (text_c @ u ''_auto_es'', text_c)]"





section \<open>Text buffers\<close>

lemma get_add_to_text_buffer:
  "get_text_buffer (add_to_text_buffer r sid text) sid =
     (if get_text_buffer r sid = [] then text else get_text_buffer r sid @ u '' '' @ text)"
  by (simp add: get_text_buffer_def add_to_text_buffer_def Let_def split: option.splits)

lemma clear_text_buffer_returns:
  "fst (clear_text_buffer r sid) = get_text_buffer r sid"
  by (simp add: clear_text_buffer_def get_text_buffer_def)

lemma clear_text_buffer_resets:
  "get_text_buffer (snd (clear_text_buffer r sid)) sid = []"
  by (simp add: clear_text_buffer_def get_text_buffer_def)

text \<open>
  C9. For every session key whose text buffer is empty (absent, or the empty string),
  adding "a" and then "b" and draining returns exactly "a b": the separator is one space,
  put only before text added to a non-empty buffer. A second drain returns the empty string.
\<close>

theorem text_buffer_append_drain:
  assumes "get_text_buffer r sid = []"
  shows "fst (clear_text_buffer (add_to_text_buffer (add_to_text_buffer r sid (u ''a'')) sid (u ''b'')) sid)
           = u ''a b''
       \<and> fst (clear_text_buffer
                (snd (clear_text_buffer
                        (add_to_text_buffer (add_to_text_buffer r sid (u ''a'')) sid (u ''b'')) sid)) sid)
           = []
       \<and> (\<forall>r' t. get_text_buffer (add_to_text_buffer r' sid t) sid =
             (if get_text_buffer r' sid = [] then t else get_text_buffer r' sid @ u '' '' @ t))"
proof -
  let ?r1 = "add_to_text_buffer r sid (u ''a'')"
  let ?r2 = "add_to_text_buffer ?r1 sid (u ''b'')"
  have b1: "get_text_buffer ?r1 sid = u ''a''"
    using assms by (simp add: get_add_to_text_buffer)
  have b2: "get_text_buffer ?r2 sid = u ''a b''"
    using b1 by (subst get_add_to_text_buffer) (simp add: u_def)
  have d1: "fst (clear_text_buffer ?r2 sid) = u ''a b''"
    by (simp add: clear_text_buffer_returns b2)
  have d2: "fst (clear_text_buffer (snd (clear_text_buffer ?r2 sid)) sid) = []"
    by (simp add: clear_text_buffer_returns clear_text_buffer_resets)
  show ?thesis
    using d1 d2 get_add_to_text_buffer by blast
qed

theorem text_buffer_append_drain_witness:
  "get_text_buffer empty_registry (u ''s1'') = []
   \<and> fst (clear_text_buffer
            (add_to_text_buffer (add_to_text_buffer empty_registry (u ''s1'') (u ''a'')) (u ''s1'') (u ''b''))
            (u ''s1'')) = [97, 32, 98]"
proof -
  have h: "get_text_buffer empty_registry (u ''s1'') = []"
    by (simp add: get_text_buffer_def empty_registry_def)
  show ?thesis
    using h text_buffer_append_drain [OF h] by (simp add: u_def)
qed


section \<open>Target language\<close>

text \<open>
  C10. For every session key that has no metadata entry in the registry,
  \<open>set_target_language\<close> returns the registry unchanged (no metadata is created), and
  \<open>get_target_language\<close> afterwards returns the configured default.
\<close>

theorem set_target_language_absent:
  assumes "session_metadata r sid = None"
  shows "set_target_language r sid language = r
       \<and> get_target_language dflt (set_target_language r sid language) sid = MStr dflt"
  using assms
  by (simp add: set_target_language_def update_session_metadata_def
                get_target_language_def get_session_metadata_def)

theorem set_target_language_absent_witness:
  "session_metadata empty_registry (u ''s1'') = None
   \<and> set_target_language empty_registry (u ''s1'') (u ''fr'') = empty_registry
   \<and> get_target_language (u ''es'') (set_target_language empty_registry (u ''s1'') (u ''fr'')) (u ''s1'')
       = MStr (u ''es'')"
proof -
  have h: "session_metadata empty_registry (u ''s1'') = None"
    by (simp add: empty_registry_def)
  from set_target_language_absent [OF h, of "u ''fr''" "u ''es''"] h
  show ?thesis by blast
qed

section \<open>Completeness heuristic and similarity\<close>

lemmas text_eval = u_def py_strip_def py_isspace_def endswith_def religious_endings_def
  latin1_def latin1_lower_cp_def latin1_word_char_def py_split_def normalize_text_def
  filler_words_def Let_def


lemma endswith_map:
  assumes "endswith s e" shows "endswith (map f s) (map f e)"
proof -
  have l: "length e \<le> length s" and d: "drop (length s - length e) s = e"
    using assms by (simp_all add: endswith_def)
  have "drop (length s - length e) (map f s) = map f (drop (length s - length e) s)"
    by (simp add: drop_map)
  then show ?thesis using l d by (simp add: endswith_def)
qed

lemma latin1_lower_endings: "list_all (\<lambda>e. map latin1_lower_cp e = e) religious_endings"
  by (simp add: religious_endings_def u_def latin1_lower_cp_def)

lemma latin1_keeps_ending:
  assumes "e \<in> set religious_endings" and "endswith t e"
  shows "endswith (str_lower latin1 t) e"
proof -
  have "map latin1_lower_cp e = e"
    using latin1_lower_endings assms(1) by (simp add: list_all_iff)
  then show ?thesis
    using endswith_map [OF assms(2), of latin1_lower_cp] by (simp add: latin1_def)
qed

text \<open>
  C8. \<open>_is_text_complete_enough\<close> is a decision list on the trimmed text: shorter than 5
  characters (the empty text included) is rejected; otherwise a text ending with one of
  \<open>. ! ? :\<close> is accepted, a text whose lowercased form ends with one of the fixed closing
  words is accepted, and a text of at least 3 words and 15 characters is accepted; every
  other text is rejected. On strings of Basic Latin and Latin-1 a text that ends with a
  closing word as written is accepted. "Hello" and "um wait" are rejected, "This is a
  complete sentence." and "y el espiritu santo" (with an acute i) are accepted.
\<close>

theorem is_text_complete_enough_rules:
  "(length (py_strip text) < 5 \<longrightarrow> \<not> is_text_complete_enough U text)
 \<and> (length text < 5 \<longrightarrow> \<not> is_text_complete_enough U text)
 \<and> (5 \<le> length (py_strip text) \<and>
      (endswith (py_strip text) (u ''.'') \<or> endswith (py_strip text) (u ''!'') \<or>
       endswith (py_strip text) (u ''?'') \<or> endswith (py_strip text) (u '':''))
      \<longrightarrow> is_text_complete_enough U text)
 \<and> (5 \<le> length (py_strip text) \<and>
      (\<exists>ending \<in> set religious_endings. endswith (str_lower U (py_strip text)) ending)
      \<longrightarrow> is_text_complete_enough U text)
 \<and> (5 \<le> length (py_strip text) \<and>
      (\<exists>ending \<in> set religious_endings. endswith (py_strip text) ending)
      \<longrightarrow> is_text_complete_enough latin1 text)
 \<and> (3 \<le> length (py_split (py_strip text)) \<and> 15 \<le> length (py_strip text)
      \<longrightarrow> is_text_complete_enough U text)
 \<and> (\<not> (endswith (py_strip text) (u ''.'') \<or> endswith (py_strip text) (u ''!'') \<or>
         endswith (py_strip text) (u ''?'') \<or> endswith (py_strip text) (u '':'')) \<and>
      \<not> (\<exists>ending \<in> set religious_endings. endswith (str_lower U (py_strip text)) ending) \<and>
      \<not> (3 \<le> length (py_split (py_strip text)) \<and> 15 \<le> length (py_strip text))
      \<longrightarrow> \<not> is_text_complete_enough U text)
 \<and> \<not> is_text_complete_enough latin1 (u ''Hello'')
 \<and> \<not> is_text_complete_enough latin1 (u ''um wait'')
 \<and> is_text_complete_enough latin1 (u ''This is a complete sentence.'')
 \<and> is_text_complete_enough latin1 (u ''y el esp'' @ [237] @ u ''ritu santo'')"
proof -
  have strip_nil: "py_strip [] = []" by (simp add: py_strip_def)
  have short: "length (py_strip text) < 5 \<Longrightarrow> \<not> is_text_complete_enough U text"
    by (simp add: is_text_complete_enough_def Let_def)
  have "length (py_strip text) \<le> length (dropWhile py_isspace text)"
    unfolding py_strip_def by (metis length_dropWhile_le length_rev)
  then have "length (py_strip text) \<le> length text"
    using length_dropWhile_le [of py_isspace "text"] by (rule order_trans)
  then have raw: "length text < 5 \<Longrightarrow> \<not> is_text_complete_enough U text"
    using short by simp
  have long: "5 \<le> length (py_strip text) \<Longrightarrow> text \<noteq> [] \<and> py_strip text \<noteq> []"
    using strip_nil by auto
  have punct: "5 \<le> length (py_strip text) \<and>
      (endswith (py_strip text) (u ''.'') \<or> endswith (py_strip text) (u ''!'') \<or>
       endswith (py_strip text) (u ''?'') \<or> endswith (py_strip text) (u '':''))
      \<Longrightarrow> is_text_complete_enough U text"
    using long by (auto simp add: is_text_complete_enough_def Let_def)
  have ending: "5 \<le> length (py_strip text) \<and>
      (\<exists>ending \<in> set religious_endings. endswith (str_lower U (py_strip text)) ending)
      \<Longrightarrow> is_text_complete_enough U text"
    using long by (auto simp add: is_text_complete_enough_def Let_def list_ex_iff)
  have literal: "5 \<le> length (py_strip text) \<and>
      (\<exists>ending \<in> set religious_endings. endswith (py_strip text) ending)
      \<Longrightarrow> is_text_complete_enough latin1 text"
    using long latin1_keeps_ending [of _ "py_strip text"]
    by (auto simp add: is_text_complete_enough_def Let_def list_ex_iff)
  have words: "3 \<le> length (py_split (py_strip text)) \<and> 15 \<le> length (py_strip text)
      \<Longrightarrow> is_text_complete_enough U text"
    using long by (auto simp add: is_text_complete_enough_def Let_def)
  have other: "\<not> (endswith (py_strip text) (u ''.'') \<or> endswith (py_strip text) (u ''!'') \<or>
         endswith (py_strip text) (u ''?'') \<or> endswith (py_strip text) (u '':'')) \<and>
      \<not> (\<exists>ending \<in> set religious_endings. endswith (str_lower U (py_strip text)) ending) \<and>
      \<not> (3 \<le> length (py_split (py_strip text)) \<and> 15 \<le> length (py_strip text))
      \<Longrightarrow> \<not> is_text_complete_enough U text"
    by (auto simp add: is_text_complete_enough_def Let_def list_ex_iff)
  have e1: "\<not> is_text_complete_enough latin1 (u ''Hello'')"
    by (simp add: is_text_complete_enough_def text_eval)
  have e2: "\<not> is_text_complete_enough latin1 (u ''um wait'')"
    by (simp add: is_text_complete_enough_def text_eval)
  have e3: "is_text_complete_enough latin1 (u ''This is a complete sentence.'')"
    by (simp add: is_text_complete_enough_def text_eval)
  have e4: "is_text_complete_enough latin1 (u ''y el esp'' @ [237] @ u ''ritu santo'')"
    by (simp add: is_text_complete_enough_def text_eval)
  show ?thesis
    using short raw punct ending literal words other e1 e2 e3 e4 by blast
qed

theorem is_text_complete_enough_rules_witness:
  "length (py_strip (u ''Dios'')) < 5 \<and> \<not> is_text_complete_enough latin1 (u ''Dios'')
 \<and> 5 \<le> length (py_strip (u '' Listen: '')) \<and> endswith (py_strip (u '' Listen: '')) (u '':'')
 \<and> is_text_complete_enough latin1 (u '' Listen: '')
 \<and> 5 \<le> length (py_strip (u ''el PADRE''))
 \<and> endswith (str_lower latin1 (py_strip (u ''el PADRE''))) (u ''padre'')
 \<and> is_text_complete_enough latin1 (u ''el PADRE'')
 \<and> 3 \<le> length (py_split (py_strip (u ''we have heard them'')))
 \<and> 15 \<le> length (py_strip (u ''we have heard them''))
 \<and> is_text_complete_enough latin1 (u ''we have heard them'')"
proof -
  have h1: "length (py_strip (u ''Dios'')) < 5"
    by (simp add: text_eval)
  have h2: "5 \<le> length (py_strip (u '' Listen: ''))" "endswith (py_strip (u '' Listen: '')) (u '':'')"
    by (simp_all add: text_eval)
  have h3: "5 \<le> length (py_strip (u ''el PADRE''))"
           "endswith (str_lower latin1 (py_strip (u ''el PADRE''))) (u ''padre'')"
    by (simp_all add: text_eval)
  have m3: "u ''padre'' \<in> set religious_endings"
    by (simp add: religious_endings_def)
  have h4: "3 \<le> length (py_split (py_strip (u ''we have heard them'')))"
           "15 \<le> length (py_strip (u ''we have heard them''))"
    by (simp_all add: text_eval)
  have c1: "\<not> is_text_complete_enough latin1 (u ''Dios'')"
    using is_text_complete_enough_rules [of "u ''Dios''" latin1] h1 by simp
  have c2: "is_text_complete_enough latin1 (u '' Listen: '')"
    using is_text_complete_enough_rules [of "u '' Listen: ''" latin1] h2 by simp
  have c3: "is_text_complete_enough latin1 (u ''el PADRE'')"
    using is_text_complete_enough_rules [of "u ''el PADRE''" latin1] h3 m3 by blast
  have c4: "is_text_complete_enough latin1 (u ''we have heard them'')"
    using is_text_complete_enough_rules [of "u ''we have heard them''" latin1] h4 by simp
  show ?thesis
    using h1 h2 h3 h4 c1 c2 c3 c4 by simp
qed


section \<open>Live transcript messages\<close>

lemma is_final_of_live_message:
  "data_field (live_message E now_iso sid data t) (u ''is_final'') =
     Some (py_and (dict_get_default data (u ''end_of_turn'') (JBool False))
             (py_or (dict_get_default data (u ''turn_is_formatted'') (JBool False))
                    (JBool (u ''turn_is_formatted'' \<in> dom data))))"
  by (simp add: live_message_def data_field_def field_def Let_def u_def)

lemma handle_turn:
  assumes "data (u ''type'') = Some (JStr (u ''Turn''))"
      and "data (u ''transcript'') = Some (JStr s)" and "py_strip s \<noteq> []"
  shows "sent_messages (fst (handle_assemblyai_message E st now_iso sid data)) =
           (if sid \<in> dom (active_connections st) then [live_message E now_iso sid data (py_strip s)] else [])"
proof -
  have s: "s \<noteq> []" using assms(3) by (auto simp: py_strip_def)
  have ne: "JStr (u ''Turn'') \<noteq> JStr (u ''Begin'')" by (simp add: u_def)
  show ?thesis
    using assms s ne
    by (auto simp add: handle_assemblyai_message_def Let_def dict_get_default_def send_to_session_def
       split: option.splits)
qed

text \<open>
  C1 (as amended). For every Turn event whose transcript is non-empty after trimming, the
  one live transcript message goes to the session's stored connection and its \<open>is_final\<close>
  field is \<open>end_of_turn and (turn_is_formatted or "turn_is_formatted" in data)\<close>, with
  both flags read with default false. So an event that carries both flags has
  \<open>is_final\<close> equal to \<open>end_of_turn\<close> alone, whatever \<open>turn_is_formatted\<close> is, and an
  event that carries \<open>end_of_turn\<close> but no \<open>turn_is_formatted\<close> field has \<open>is_final\<close> false.
\<close>

theorem live_transcript_is_final:
  assumes "data (u ''type'') = Some (JStr (u ''Turn''))"
      and "data (u ''transcript'') = Some (JStr s)" and "py_strip s \<noteq> []"
      and "active_connections st sid = Some ws"
  shows "sent_messages (fst (handle_assemblyai_message E st now_iso sid data))
           = [live_message E now_iso sid data (py_strip s)]
       \<and> recipients (fst (handle_assemblyai_message E st now_iso sid data)) = [ws]
       \<and> data_field (live_message E now_iso sid data (py_strip s)) (u ''is_final'')
           = Some (py_and (dict_get_default data (u ''end_of_turn'') (JBool False))
                    (py_or (dict_get_default data (u ''turn_is_formatted'') (JBool False))
                           (JBool (u ''turn_is_formatted'' \<in> dom data))))
       \<and> (\<forall>e f. data (u ''end_of_turn'') = Some (JBool e)
                \<and> data (u ''turn_is_formatted'') = Some (JBool f)
              \<longrightarrow> data_field (live_message E now_iso sid data (py_strip s)) (u ''is_final'')
                    = Some (JBool e))
       \<and> (\<forall>e. data (u ''end_of_turn'') = Some (JBool e)
                \<and> data (u ''turn_is_formatted'') = None
              \<longrightarrow> data_field (live_message E now_iso sid data (py_strip s)) (u ''is_final'')
                    = Some (JBool False))
       \<and> (data (u ''end_of_turn'') = None
              \<longrightarrow> data_field (live_message E now_iso sid data (py_strip s)) (u ''is_final'')
                    = Some (JBool False))"
proof -
  have m: "sent_messages (fst (handle_assemblyai_message E st now_iso sid data))
           = [live_message E now_iso sid data (py_strip s)]"
    using handle_turn [OF assms(1,2,3)] assms(4) by (simp add: domI)
  have s: "s \<noteq> []" using assms(3) by (auto simp: py_strip_def)
  have ne: "JStr (u ''Turn'') \<noteq> JStr (u ''Begin'')" by (simp add: u_def)
  have r: "recipients (fst (handle_assemblyai_message E st now_iso sid data)) = [ws]"
    using assms s ne
    by (auto simp add: handle_assemblyai_message_def Let_def dict_get_default_def send_to_session_def)
  note g = is_final_of_live_message [of E now_iso sid data "py_strip s"]
  have both: "data_field (live_message E now_iso sid data (py_strip s)) (u ''is_final'') = Some (JBool e)"
    if "data (u ''end_of_turn'') = Some (JBool e)" and "data (u ''turn_is_formatted'') = Some (JBool f)"
    for e f
  proof -
    have "u ''turn_is_formatted'' \<in> dom data" using that(2) by (simp add: domI)
    then show ?thesis
      using that by (simp add: g dict_get_default_def py_and_def py_or_def)
  qed
  have nokey: "data_field (live_message E now_iso sid data (py_strip s)) (u ''is_final'')
                 = Some (JBool False)"
    if "data (u ''end_of_turn'') = Some (JBool e)" and "data (u ''turn_is_formatted'') = None" for e
  proof -
    have "u ''turn_is_formatted'' \<notin> dom data" using that(2) by (simp add: domIff)
    then show ?thesis
      using that by (simp add: g dict_get_default_def py_and_def py_or_def)
  qed
  have noend: "data_field (live_message E now_iso sid data (py_strip s)) (u ''is_final'')
                 = Some (JBool False)"
    if "data (u ''end_of_turn'') = None"
    using that by (simp add: g dict_get_default_def py_and_def)
  show ?thesis using m r g both nokey noend by blast
qed

lemma turn_unformatted_fields:
  "turn_unformatted (u ''type'') = Some (JStr (u ''Turn''))"
  "turn_unformatted (u ''transcript'') = Some (JStr (u ''Hello there.''))"
  "turn_unformatted (u ''end_of_turn'') = Some (JBool True)"
  "turn_unformatted (u ''turn_is_formatted'') = Some (JBool False)"
  by (simp_all add: turn_unformatted_def u_def)

text \<open>
  Claim C1 as stated fails: with \<open>end_of_turn\<close> true and \<open>turn_is_formatted\<close> false the
  message sent has \<open>is_final\<close> true, not \<open>end_of_turn and turn_is_formatted\<close>.
\<close>

theorem live_transcript_is_final_counterexample:
  "map (\<lambda>m. data_field m (u ''is_final''))
     (sent_messages (fst (handle_assemblyai_message demo_env
        (websocket_endpoint_store empty_bridge (u ''s1'') 7) (u ''2025-01-01T00:00:00'') (u ''s1'')
        turn_unformatted)))
   = [Some (JBool True)]
   \<and> JBool True \<noteq> JBool (True \<and> False)"
proof -
  have st: "py_strip (u ''Hello there.'') \<noteq> []" by (simp add: text_eval)
  have c: "u ''s1'' \<in> dom (active_connections (websocket_endpoint_store empty_bridge (u ''s1'') 7))"
    by (simp add: websocket_endpoint_store_def)
  have "u ''turn_is_formatted'' \<in> dom turn_unformatted" using turn_unformatted_fields(4) by (simp add: domI)
  then show ?thesis
    using handle_turn [OF turn_unformatted_fields(1,2) st, of demo_env "websocket_endpoint_store empty_bridge (u ''s1'') 7" "u ''2025-01-01T00:00:00''" "u ''s1''"] c
    by (simp add: is_final_of_live_message dict_get_default_def turn_unformatted_fields py_and_def py_or_def)
qed

lemma turn_without_format_fields:
  "turn_without_format (u ''type'') = Some (JStr (u ''Turn''))"
  "turn_without_format (u ''transcript'') = Some (JStr (u ''Hello there.''))"
  "turn_without_format (u ''end_of_turn'') = Some (JBool True)"
  "turn_without_format (u ''turn_is_formatted'') = None"
  by (simp_all add: turn_without_format_def u_def)

theorem live_transcript_is_final_witness:
  "sent_messages (fst (handle_assemblyai_message demo_env
        (websocket_endpoint_store empty_bridge (u ''s1'') 7) (u ''2025-01-01T00:00:00'') (u ''s1'')
        turn_unformatted))
     = [live_message demo_env (u ''2025-01-01T00:00:00'') (u ''s1'') turn_unformatted (py_strip (u ''Hello there.''))]
   \<and> data_field (live_message demo_env (u ''2025-01-01T00:00:00'') (u ''s1'') turn_unformatted (py_strip (u ''Hello there.'')))
        (u ''is_final'') = Some (JBool True)
   \<and> sent_messages (fst (handle_assemblyai_message demo_env
        (websocket_endpoint_store empty_bridge (u ''s1'') 7) (u ''2025-01-01T00:00:00'') (u ''s1'')
        turn_without_format))
     = [live_message demo_env (u ''2025-01-01T00:00:00'') (u ''s1'') turn_without_format (py_strip (u ''Hello there.''))]
   \<and> data_field (live_message demo_env (u ''2025-01-01T00:00:00'') (u ''s1'') turn_without_format (py_strip (u ''Hello there.'')))
        (u ''is_final'') = Some (JBool False)"
proof -
  have st: "py_strip (u ''Hello there.'') \<noteq> []" by (simp add: text_eval)
  have c: "active_connections (websocket_endpoint_store empty_bridge (u ''s1'') 7) (u ''s1'') = Some 7"
    by (simp add: websocket_endpoint_store_def)
  show ?thesis
    using live_transcript_is_final [OF turn_unformatted_fields(1,2) st c,
            of demo_env "u ''2025-01-01T00:00:00''"]
          live_transcript_is_final [OF turn_without_format_fields(1,2) st c,
            of demo_env "u ''2025-01-01T00:00:00''"]
          turn_unformatted_fields(3,4) turn_without_format_fields(3,4)
    by blast
qed


section \<open>Delivery to clients\<close>










lemma handle_turn_recipients:
  assumes "data (u ''type'') = Some (JStr (u ''Turn''))"
      and "data (u ''transcript'') = Some (JStr s)" and "py_strip s \<noteq> []"
      and "active_connections st sid = Some ws"
  shows "recipients (fst (handle_assemblyai_message E st now_iso sid data)) = [ws]"
proof -
  have s: "s \<noteq> []" using assms(3) by (auto simp: py_strip_def)
  have ne: "JStr (u ''Turn'') \<noteq> JStr (u ''Begin'')" by (simp add: u_def)
  show ?thesis
    using assms s ne
    by (auto simp add: handle_assemblyai_message_def Let_def dict_get_default_def send_to_session_def)
qed




section \<open>Audio without a provider handle\<close>

text \<open>
  C4 (as amended). For a session key that has no provider handle, \<open>process_audio_chunk\<close>
  on a chunk of at least 100 bytes sends nothing, neither to the transcription socket
  nor to the client, and returns normally: the missing handle is logged only.
\<close>

theorem process_audio_chunk_no_handle:
  assumes "assembly_sessions st sid = None" and "100 \<le> length audio_data"
  shows "process_audio_chunk E st sid audio_data = ([], None)"
  using assms by (simp add: process_audio_chunk_def)

theorem process_audio_chunk_no_handle_witness:
  "assembly_sessions (websocket_endpoint_store empty_bridge (u ''s1'') 7) (u ''s1'') = None
 \<and> 100 \<le> length (replicate 400 (0::nat))
 \<and> process_audio_chunk demo_env (websocket_endpoint_store empty_bridge (u ''s1'') 7) (u ''s1'')
       (replicate 400 0) = ([], None)"
proof -
  have h1: "assembly_sessions (websocket_endpoint_store empty_bridge (u ''s1'') 7) (u ''s1'') = None"
    by (simp add: websocket_endpoint_store_def empty_bridge_def)
  have h2: "100 \<le> length (replicate 400 (0::nat))" by simp
  show ?thesis
    using h1 h2 process_audio_chunk_no_handle [OF h1 h2, of demo_env] by simp
qed

text \<open>
  Claim C4 as stated fails: a client is connected, the session has no provider handle,
  400 bytes of audio arrive; the caller gets a normal return and no error message is sent.
\<close>

theorem process_audio_chunk_no_handle_counterexample:
  "snd (process_audio_chunk demo_env (websocket_endpoint_store empty_bridge (u ''s1'') 7) (u ''s1'')
          (replicate 400 0)) = None
 \<and> sent_messages (fst (process_audio_chunk demo_env (websocket_endpoint_store empty_bridge (u ''s1'') 7)
          (u ''s1'') (replicate 400 0))) = []"
  by (simp add: process_audio_chunk_def websocket_endpoint_store_def empty_bridge_def)


section \<open>Session cleanup\<close>

lemma cleanup_text_absent:
  "session_text_buffers (cleanup_text r k) k = None \<and> session_buffer_timers (cleanup_text r k) k = None
   \<and> active_sessions (cleanup_text r k) = active_sessions r
   \<and> session_metadata (cleanup_text r k) = session_metadata r
   \<and> translation_buffers (cleanup_text r k) = translation_buffers r
   \<and> translation_timers (cleanup_text r k) = translation_timers r"
  by (auto simp add: cleanup_text_def Let_def split: option.splits)

lemma cleanup_translation_absent:
  "translation_buffers (cleanup_translation r k) k = None \<and> translation_timers (cleanup_translation r k) k = None
   \<and> active_sessions (cleanup_translation r k) = active_sessions r
   \<and> session_metadata (cleanup_translation r k) = session_metadata r
   \<and> session_text_buffers (cleanup_translation r k) = session_text_buffers r
   \<and> session_buffer_timers (cleanup_translation r k) = session_buffer_timers r"
  by (auto simp add: cleanup_translation_def Let_def split: option.splits)

lemma remove_last_connection:
  assumes "active_sessions r k = Some S" and "S - {ws} = {}" and "session_metadata r k = Some md"
  shows "absent (fst (remove_connection r k ws)) k \<and> snd (remove_connection r k ws) = None"
  using assms
  by (simp add: remove_connection_def absent_def Let_def cleanup_text_absent cleanup_translation_absent)

lemma absent_apply_op:
  assumes "absent r k" and "\<not> stores_under op k"
  shows "absent (apply_op r op) k"
proof (cases op)
  case (AddConnection sid ws created)
  then show ?thesis using assms
    by (auto simp add: absent_def add_connection_def Let_def split: option.splits)
next
  case (RemoveConnection sid ws)
  then show ?thesis using assms
    by (auto simp add: absent_def remove_connection_def Let_def cleanup_text_absent
          cleanup_translation_absent cleanup_text_def cleanup_translation_def split: option.splits)
next
  case (BroadcastToSession sid ex fails)
  then show ?thesis using assms
    by (auto simp add: absent_def broadcast_to_session_def Let_def split: option.splits)
next
  case (UpdateSessionMetadata sid updates)
  then show ?thesis using assms
    by (auto simp add: absent_def update_session_metadata_def split: option.splits)
next
  case (SetTargetLanguage sid language)
  then show ?thesis using assms
    by (auto simp add: absent_def set_target_language_def update_session_metadata_def split: option.splits)
next
  case (AddToTextBuffer sid s)
  then show ?thesis using assms
    by (auto simp add: absent_def add_to_text_buffer_def Let_def)
next
  case (ClearTextBuffer sid)
  then show ?thesis using assms
    by (auto simp add: absent_def clear_text_buffer_def)
next
  case (SetBufferTimer sid t)
  then show ?thesis using assms
    by (auto simp add: absent_def set_buffer_timer_def Let_def split: option.splits)
next
  case (CancelBufferTimer sid)
  then show ?thesis using assms
    by (auto simp add: absent_def cancel_buffer_timer_def split: option.splits)
next
  case (AddToTranslationBuffer sid s)
  then show ?thesis using assms
    by (auto simp add: absent_def add_to_translation_buffer_def Let_def)
next
  case (ClearTranslationBuffer sid)
  then show ?thesis using assms
    by (auto simp add: absent_def clear_translation_buffer_def)
next
  case (SetTranslationTimer sid t)
  then show ?thesis using assms
    by (auto simp add: absent_def set_translation_timer_def Let_def split: option.splits)
next
  case (CancelTranslationTimer sid)
  then show ?thesis using assms
    by (auto simp add: absent_def cancel_translation_timer_def split: option.splits)
qed

lemma absent_foldl_apply_op:
  "absent r k \<Longrightarrow> \<forall>op \<in> set ops. \<not> stores_under op k \<Longrightarrow> absent (foldl apply_op r ops) k"
  by (induction ops arbitrary: r) (simp_all add: absent_apply_op)

text \<open>
  \<open>broadcast_to_session\<close> drops the connections whose send fails and does no cleanup:
  when every send fails the session is left with an empty connection set and all its
  other state.
\<close>

lemma broadcast_can_empty_session:
  assumes "active_sessions r k = Some S" and "\<forall>w \<in> S. send_fails w"
  shows "active_sessions (fst (broadcast_to_session r k None send_fails)) k = Some {}"
    and "session_metadata (fst (broadcast_to_session r k None send_fails)) = session_metadata r"
    and "session_text_buffers (fst (broadcast_to_session r k None send_fails)) = session_text_buffers r"
  using assms by (auto simp add: broadcast_to_session_def Let_def)

text \<open>
  C3 (as amended). When \<open>remove_connection\<close> removes the last connection of a session it
  returns normally and no dictionary of the registry has an entry for the key. The key
  stays absent through every later operation other than those that store under it: it
  stays absent through \<open>remove_connection\<close>, \<open>broadcast_to_session\<close>,
  \<open>update_session_metadata\<close>, \<open>set_target_language\<close>, the two timer cancellations and
  all operations on other keys. The operations that store under the key are the join
  \<open>add_connection\<close> and also \<open>add_to_text_buffer\<close>, \<open>clear_text_buffer\<close>,
  \<open>set_buffer_timer\<close> and their translation counterparts.
\<close>

theorem session_state_after_cleanup:
  assumes "active_sessions r k = Some S" and "S - {ws} = {}" and "session_metadata r k = Some md"
      and "\<forall>op \<in> set ops. \<not> stores_under op k"
  shows "snd (remove_connection r k ws) = None
       \<and> absent (foldl apply_op (fst (remove_connection r k ws)) ops) k"
  using remove_last_connection [OF assms(1,2,3)] absent_foldl_apply_op [OF _ assms(4)] by blast

lemma joined_once:
  "active_sessions (add_connection empty_registry k ws created) k = Some {ws}"
  "session_metadata (add_connection empty_registry k ws created) k =
     Some [u ''created_at'' \<mapsto> MStr created, u ''paragraph_counter'' \<mapsto> MInt 0]"
  "session_text_buffers (add_connection empty_registry k ws created) k = Some []"
  by (simp_all add: add_connection_def empty_registry_def Let_def)

theorem session_state_after_cleanup_witness:
  "active_sessions (add_connection empty_registry (u ''s1'') 7 (u ''2025-01-01T00:00:00'')) (u ''s1'') = Some {7}
 \<and> {7} - {7::nat} = {}
 \<and> \<not> stores_under (SetTargetLanguage (u ''s1'') (u ''fr'')) (u ''s1'')
 \<and> \<not> stores_under (CancelBufferTimer (u ''s1'')) (u ''s1'')
 \<and> \<not> stores_under (AddToTextBuffer (u ''s2'') (u ''x'')) (u ''s1'')
 \<and> absent (foldl apply_op
      (fst (remove_connection (add_connection empty_registry (u ''s1'') 7 (u ''2025-01-01T00:00:00''))
              (u ''s1'') 7))
      [SetTargetLanguage (u ''s1'') (u ''fr''), CancelBufferTimer (u ''s1''),
       AddToTextBuffer (u ''s2'') (u ''x'')]) (u ''s1'')"
proof -
  have h2: "{7} - {7::nat} = {}" by simp
  have h4: "\<forall>op \<in> set [SetTargetLanguage (u ''s1'') (u ''fr''), CancelBufferTimer (u ''s1''),
                   AddToTextBuffer (u ''s2'') (u ''x'')]. \<not> stores_under op (u ''s1'')"
    by (simp add: u_def)
  have h5: "\<not> stores_under (SetTargetLanguage (u ''s1'') (u ''fr'')) (u ''s1'')"
           "\<not> stores_under (CancelBufferTimer (u ''s1'')) (u ''s1'')"
           "\<not> stores_under (AddToTextBuffer (u ''s2'') (u ''x'')) (u ''s1'')"
    by (simp_all add: u_def)
  show ?thesis
    using h2 h5 joined_once(1) session_state_after_cleanup [OF joined_once(1) h2 joined_once(2) h4]
    by blast
qed

text \<open>
  Claim C3 as stated fails: after the last connection of a session has left,
  \<open>clear_text_buffer\<close> stores an empty text buffer under the key, though nobody joined.
\<close>

theorem session_state_after_cleanup_counterexample:
  "absent (fst (remove_connection (add_connection empty_registry (u ''s1'') 7 (u ''2025-01-01T00:00:00''))
                  (u ''s1'') 7)) (u ''s1'')
 \<and> session_text_buffers
       (snd (clear_text_buffer
          (fst (remove_connection (add_connection empty_registry (u ''s1'') 7 (u ''2025-01-01T00:00:00''))
                  (u ''s1'') 7)) (u ''s1''))) (u ''s1'') = Some []
 \<and> active_sessions
       (snd (clear_text_buffer
          (fst (remove_connection (add_connection empty_registry (u ''s1'') 7 (u ''2025-01-01T00:00:00''))
                  (u ''s1'') 7)) (u ''s1''))) (u ''s1'') = None"
proof -
  have h2: "{7} - {7::nat} = {}" by simp
  have a: "absent (fst (remove_connection (add_connection empty_registry (u ''s1'') 7 (u ''2025-01-01T00:00:00''))
                  (u ''s1'') 7)) (u ''s1'')"
    using remove_last_connection [OF joined_once(1) h2 joined_once(2)] by simp
  then show ?thesis
    by (simp add: clear_text_buffer_def absent_def)
qed


section \<open>Translation cache\<close>

lemma texts_are_similar_lists:
  "texts_are_similar text1 text2 threshold =
     (if text1 = text2 then True
      else let w1 = py_split text1; w2 = py_split text2 in
        if w1 = [] \<or> w2 = [] then False
        else threshold \<le> real (length (remdups (filter (\<lambda>w. w \<in> set w2) w1)))
                           / real (length (remdups (w1 @ w2))))"
proof -
  have i: "card (set xs \<inter> set ys) = length (remdups (filter (\<lambda>w. w \<in> set ys) xs))"
    for xs ys :: "ustring list"
  proof -
    have "set xs \<inter> set ys = set (filter (\<lambda>w. w \<in> set ys) xs)" by auto
    then show ?thesis by (simp only: List.card_set)
  qed
  have un: "card (set xs \<union> set ys) = length (remdups (xs @ ys))" for xs ys :: "ustring list"
    by (metis List.card_set set_append)
  have z: "length (remdups (xs @ ys)) = 0 \<longleftrightarrow> xs = [] \<and> ys = []" for xs ys :: "ustring list"
    by simp
  show ?thesis
    unfolding texts_are_similar_def Let_def i un by (simp add: z)
qed

lemma fuzzy_match_key:
  "fuzzy_match U clean_text suffix (key_text @ suffix, v)
     = texts_are_similar (str_lower U clean_text) key_text (9 / 10)"
  by (simp add: fuzzy_match_def endswith_def)

lemma find_fuzzy_match:
  "kv \<in> set cache \<Longrightarrow> fuzzy_match U clean_text suffix kv \<Longrightarrow>
     \<exists>kv'. find (fuzzy_match U clean_text suffix) cache = Some kv' \<and> kv' \<in> set cache
              \<and> fuzzy_match U clean_text suffix kv'"
  by (induction cache) auto

lemma fuzzy_match_key_text:
  assumes "fuzzy_match U clean_text suffix (k, v)"
  shows "\<exists>key_text. k = key_text @ suffix
            \<and> texts_are_similar (str_lower U clean_text) key_text (9 / 10)"
proof -
  have e: "endswith k suffix" using assms by (simp add: fuzzy_match_def)
  then have "k = take (length k - length suffix) k @ suffix"
    by (metis append_take_drop_id endswith_def)
  then show ?thesis using assms by (auto simp add: fuzzy_match_def)
qed

text \<open>
  C7 (as amended). Let the text be non-empty after trimming, and let the cache hold a key
  of the same language pair whose text has similarity at least 0.9 to the trimmed,
  lowercased text. Then \<open>translate_text\<close> calls no provider, leaves the cache as it is
  and returns a cached result of such a key: that of the exact key when the cache has
  it, and otherwise that of the first key, in insertion order, that matches.
\<close>

theorem translate_text_fuzzy_hit:
  assumes "py_strip text \<noteq> []"
      and "(key_text @ u ''_'' @ source_lang @ u ''_'' @ target_lang, cached) \<in> set cache"
      and "texts_are_similar (str_lower (rt E) (py_strip text)) key_text (9 / 10)"
  shows "\<exists>key_text' cached'.
           translate_text E cache sid text target_lang source_lang = (Some cached', cache, [])
         \<and> (key_text' @ u ''_'' @ source_lang @ u ''_'' @ target_lang, cached') \<in> set cache
         \<and> texts_are_similar (str_lower (rt E) (py_strip text)) key_text' (9 / 10)
         \<and> (map_of cache (str_lower (rt E) (py_strip text) @ u ''_'' @ source_lang @ u ''_'' @ target_lang)
               = Some cached'
            \<or> map_of cache (str_lower (rt E) (py_strip text) @ u ''_'' @ source_lang @ u ''_'' @ target_lang)
               = None
              \<and> find (fuzzy_match (rt E) (py_strip text) (u ''_'' @ source_lang @ u ''_'' @ target_lang)) cache
                  = Some (key_text' @ u ''_'' @ source_lang @ u ''_'' @ target_lang, cached'))"
proof -
  let ?suffix = "u ''_'' @ source_lang @ u ''_'' @ target_lang"
  let ?key = "str_lower (rt E) (py_strip text) @ ?suffix"
  show ?thesis
  proof (cases "map_of cache ?key")
    case (Some r)
    then have r: "translate_text E cache sid text target_lang source_lang = (Some r, cache, [])"
      using assms(1) by (simp add: translate_text_def Let_def)
    have m: "(?key, r) \<in> set cache" using Some by (rule map_of_SomeD)
    have s: "texts_are_similar (str_lower (rt E) (py_strip text)) (str_lower (rt E) (py_strip text)) (9 / 10)"
      by (simp add: texts_are_similar_def)
    show ?thesis using r m s Some by blast
  next
    case None
    have fm: "fuzzy_match (rt E) (py_strip text) ?suffix (key_text @ ?suffix, cached)"
      using assms(3) by (simp only: fuzzy_match_key)
    obtain k' v' where f: "find (fuzzy_match (rt E) (py_strip text) ?suffix) cache = Some (k', v')"
        and m: "(k', v') \<in> set cache" and fm': "fuzzy_match (rt E) (py_strip text) ?suffix (k', v')"
      using find_fuzzy_match [OF assms(2) fm] by auto
    obtain kt where kt: "k' = kt @ ?suffix"
        and s: "texts_are_similar (str_lower (rt E) (py_strip text)) kt (9 / 10)"
      using fuzzy_match_key_text [OF fm'] by blast
    have r: "translate_text E cache sid text target_lang source_lang = (Some v', cache, [])"
      using assms(1) None f by (simp add: translate_text_def Let_def)
    show ?thesis using r m s kt None f by blast
  qed
qed

theorem translate_text_fuzzy_hit_witness:
  "py_strip text_b \<noteq> []
 \<and> (text_c @ u ''_'' @ u ''auto'' @ u ''_'' @ u ''es'', text_c) \<in> set cache_ac
 \<and> texts_are_similar (str_lower (rt echo_env) (py_strip text_b)) text_c (9 / 10)
 \<and> (\<exists>key_text' cached'.
       translate_text echo_env cache_ac (u ''s1'') text_b (u ''es'') (u ''auto'')
         = (Some cached', cache_ac, [])
     \<and> (key_text' @ u ''_'' @ u ''auto'' @ u ''_'' @ u ''es'', cached') \<in> set cache_ac
     \<and> texts_are_similar (str_lower (rt echo_env) (py_strip text_b)) key_text' (9 / 10))"
proof -
  have h1: "py_strip text_b \<noteq> []"
    by (simp add: text_b_def text_eval)
  have h2: "(text_c @ u ''_'' @ u ''auto'' @ u ''_'' @ u ''es'', text_c) \<in> set cache_ac"
    by (simp add: cache_ac_def u_def)
  have h3: "texts_are_similar (str_lower (rt echo_env) (py_strip text_b)) text_c (9 / 10)"
    by (simp add: texts_are_similar_lists echo_env_def demo_env_def text_b_def text_c_def text_eval)
  show ?thesis
    using h1 h2 h3 translate_text_fuzzy_hit [OF h1 h2 h3, of "u ''s1''"] by blast
qed

text \<open>
  Claim C7 as stated fails. Translating \<open>text_a\<close> and then \<open>text_c\<close> from an empty cache
  stores both, since their similarity is 10/12. \<open>text_b\<close> has similarity 11/12 to the key
  of \<open>text_c\<close>, yet \<open>translate_text\<close> returns the cached result of the key of \<open>text_a\<close>
  (similarity 10/11), which comes first in the cache.
\<close>

theorem translate_text_fuzzy_hit_counterexample:
  "fst (snd (translate_text echo_env
        (fst (snd (translate_text echo_env [] (u ''s1'') text_a (u ''es'') (u ''auto''))))
        (u ''s1'') text_c (u ''es'') (u ''auto''))) = cache_ac
 \<and> (text_c @ u ''_auto_es'', text_c) \<in> set cache_ac
 \<and> texts_are_similar (str_lower (rt echo_env) (py_strip text_b)) text_c (9 / 10)
 \<and> translate_text echo_env cache_ac (u ''s1'') text_b (u ''es'') (u ''auto'')
      = (Some text_a, cache_ac, [])
 \<and> text_a \<noteq> text_c"
proof -
  have c1: "translate_text echo_env [] (u ''s1'') text_a (u ''es'') (u ''auto'')
              = (Some text_a, [(text_a @ u ''_auto_es'', text_a)], [ProviderCall (u ''s1'') text_a (u ''es'') (u ''auto'')])"
    by (simp add: translate_text_def translate_stream_def is_valid_translation_def error_patterns_def
          echo_env_def demo_env_def text_a_def text_eval)
  have c2: "translate_text echo_env [(text_a @ u ''_auto_es'', text_a)] (u ''s1'') text_c (u ''es'') (u ''auto'')
              = (Some text_c, cache_ac, [ProviderCall (u ''s1'') text_c (u ''es'') (u ''auto'')])"
    by (simp add: translate_text_def translate_stream_def is_valid_translation_def error_patterns_def
          fuzzy_match_def texts_are_similar_lists cache_ac_def
          echo_env_def demo_env_def text_a_def text_c_def text_eval)
  have c3: "translate_text echo_env cache_ac (u ''s1'') text_b (u ''es'') (u ''auto'')
      = (Some text_a, cache_ac, [])"
    by (simp add: translate_text_def fuzzy_match_def texts_are_similar_lists cache_ac_def
          echo_env_def demo_env_def text_a_def text_b_def text_c_def text_eval)
  have h2: "(text_c @ u ''_auto_es'', text_c) \<in> set cache_ac"
    by (simp add: cache_ac_def)
  have h3: "texts_are_similar (str_lower (rt echo_env) (py_strip text_b)) text_c (9 / 10)"
    by (simp add: texts_are_similar_lists echo_env_def demo_env_def text_b_def text_c_def text_eval)
  have ne: "text_a \<noteq> text_c"
    by (simp add: text_a_def text_c_def u_def)
  show ?thesis
    using c1 c2 c3 h2 h3 ne by simp
qed


section \<open>Translation throttle and deduplication\<close>




text \<open>
  The cut of the deduplication set keeps the last 50 entries of the set's listing; a text
  recorded by an invocation that makes the set outgrow 100 entries is lost at once when
  the listing does not put it among them.
\<close>

lemma translate_cut_can_drop:
  assumes "last_translation_times st sid = None"
      and "translated_texts st sid = Some seen"
      and "normalize_text (rt E) text \<notin> seen"
      and "\<forall>existing_text \<in> seen.
             \<not> 6 / 10 < calculate_similarity (rt E) (normalize_text (rt E) text) existing_text"
      and "100 < card (insert (normalize_text (rt E) text) seen)"
      and "normalize_text (rt E) text \<notin>
             set (drop (length (set_listing E (insert (normalize_text (rt E) text) seen)) - 50)
                    (set_listing E (insert (normalize_text (rt E) text) seen)))"
  shows "\<exists>kept. translated_texts (fst (translate_and_broadcast_async E st t now_iso sid text tgt)) sid
                  = Some kept \<and> normalize_text (rt E) text \<notin> kept"
  using assms
  by (auto simp add: translate_and_broadcast_async_def Let_def domI split: prod.splits)








section \<open>Rate-limited refinement\<close>

lemma paragraph1_text:
  "dict_get_default paragraph1 (u ''buffered_text'') (JStr []) = JStr (u ''first line second line'')"
  by (simp add: paragraph1_def dict_get_default_def u_def)

lemma http_rate_limited:
  assumes "PARAGRAPHIZER_HTTP_URL C \<noteq> []"
  shows "refine_with_http C U (HttpReply 429 retry_after body) sid paragraph_data
           = (JNull, [CreateRefineTask sid paragraph_data (retry_backoff C U retry_after)])"
  using assms by (simp add: refine_with_http_def)

lemma lemur_rate_limited:
  "refine_with_lemur C U (HttpReply 429 retry_after body) = (JNull, [])"
  by (simp add: refine_with_lemur_def)

lemma retry_backoff_default:
  "retry_backoff C U None = real_of_int (PARAGRAPHIZER_RETRY_BACKOFF_SECONDS C)"
  "float_of U s = None \<Longrightarrow>
     retry_backoff C U (Some s) = real_of_int (PARAGRAPHIZER_RETRY_BACKOFF_SECONDS C)"
  "float_of U s = Some x \<Longrightarrow> retry_backoff C U (Some s) = x"
  by (simp_all add: retry_backoff_def)

text \<open>
  C6. In the rate-limit scenario the HTTP backend broadcasts nothing and creates exactly
  one retry task, whose delay is the advertised 3 seconds and whose sleep is therefore 3
  seconds. The fallback backend broadcasts nothing either, but creates no retry task at
  all: the paragraph is never refined.
\<close>

theorem rate_limit_retry:
  "refine_and_broadcast_paragraph http_config latin1 rate_limited refiner0 100
       (u ''2025-01-01T00:01:40'') (u ''s1'') paragraph1 (\<lambda>ws. False)
     = (refiner0, [CreateRefineTask (u ''s1'') paragraph1 3])
 \<and> refine_after_delay_sleep 3 = 3
 \<and> refine_and_broadcast_paragraph lemur_config latin1 rate_limited refiner0 100
       (u ''2025-01-01T00:01:40'') (u ''s1'') paragraph1 (\<lambda>ws. False)
     = (refiner0, [])"
proof -
  have p: "u ''http'' \<noteq> u ''gemini''" "u ''lemur'' \<noteq> u ''gemini''" "u ''lemur'' \<noteq> u ''http''"
          "u ''first line second line'' \<noteq> []"
    by (simp_all add: u_def)
  have b: "retry_backoff http_config latin1 (Some (u ''3'')) = 3"
    by (simp add: retry_backoff_def latin1_def)
  have url: "PARAGRAPHIZER_HTTP_URL http_config \<noteq> []"
    by (simp add: http_config_def u_def)
  have c: "PARAGRAPHIZER_PROVIDER http_config = u ''http''"
          "PARAGRAPHIZER_PROVIDER lemur_config = u ''lemur''"
    by (simp_all add: lemur_config_def http_config_def)
  have r: "http_reply rate_limited = HttpReply 429 (Some (u ''3'')) None"
          "lemur_reply rate_limited = HttpReply 429 (Some (u ''3'')) None"
    by (simp_all add: rate_limited_def)
  have n: "paragraphizer_last_call_at refiner0 (u ''s1'') = None"
    by (simp add: refiner0_def)
  have h: "refine_and_broadcast_paragraph http_config latin1 rate_limited refiner0 100
       (u ''2025-01-01T00:01:40'') (u ''s1'') paragraph1 (\<lambda>ws. False)
     = (refiner0, [CreateRefineTask (u ''s1'') paragraph1 3])"
    by (simp add: refine_and_broadcast_paragraph_def paragraph1_text p c r n
          http_rate_limited [OF url] b)
  have l: "refine_and_broadcast_paragraph lemur_config latin1 rate_limited refiner0 100
       (u ''2025-01-01T00:01:40'') (u ''s1'') paragraph1 (\<lambda>ws. False)
     = (refiner0, [])"
    by (simp add: refine_and_broadcast_paragraph_def paragraph1_text p c r n lemur_rate_limited)
  have s: "refine_after_delay_sleep 3 = 3"
    by (simp add: refine_after_delay_sleep_def)
  show ?thesis
    by (rule conjI [OF h conjI [OF s l]])
qed

end
